theory Spec2Isabelle
  imports Complex_Main "HOL-Library.Word" "HOL-Library.Signed_Division"
begin

section \<open>Values of the declaration engine (src/op/declare/binary.cc)\<close>

text \<open>
  The host types the declaration rules compute with. \<open>int64_t\<close> is a 64-bit word read
  as two's complement (\<open>sint\<close>); \<open>+\<close>, \<open>-\<close> and \<open>*\<close> wrap around, while \<open>/\<close> and
  \<open>%\<close> have no result where C++ leaves them undefined. The host's \<open>double\<close>
  is not part of the repository: its type is the parameter \<open>'f\<close> and its operators
  are the fields of a \<open>host_float\<close> record handed to every rule.
\<close>

type_synonym int64 = "64 word"

record 'f host_float =
  f_of_int :: "int \<Rightarrow> 'f"
  f_to_int :: "'f \<Rightarrow> int"
  f_add :: "'f \<Rightarrow> 'f \<Rightarrow> 'f"
  f_sub :: "'f \<Rightarrow> 'f \<Rightarrow> 'f"
  f_mul :: "'f \<Rightarrow> 'f \<Rightarrow> 'f"
  f_div :: "'f \<Rightarrow> 'f \<Rightarrow> 'f"
  f_mod :: "'f \<Rightarrow> 'f \<Rightarrow> 'f"
  f_lt :: "'f \<Rightarrow> 'f \<Rightarrow> bool"
  f_gt :: "'f \<Rightarrow> 'f \<Rightarrow> bool"
  f_le :: "'f \<Rightarrow> 'f \<Rightarrow> bool"
  f_ge :: "'f \<Rightarrow> 'f \<Rightarrow> bool"
  f_eq :: "'f \<Rightarrow> 'f \<Rightarrow> bool"
  f_ne :: "'f \<Rightarrow> 'f \<Rightarrow> bool"

datatype DevType = kUnknown | kCPU | kCUDA

record Context =
  device_type :: DevType
  device_id :: int

record DLDataType =
  code :: nat
  bits :: nat
  lanes :: nat

text \<open>
  A \<open>DLTensor\<close> as the rules read it: \<open>ctx\<close>, \<open>dtype\<close> and the \<open>shape\<close> array;
  \<open>ndim\<close> is the length of \<open>shape\<close>.
\<close>

record DLTensor =
  ctx :: Context
  dtype :: DLDataType
  shape :: "int64 list"

definition ndim :: "DLTensor \<Rightarrow> nat" where
  "ndim t = length (shape t)"

text \<open>
  \<open>Value\<close>: the three scalar objects with their \<open>data\<close> field, the tensor object, and
  \<open>OtherValue\<close> for every other kind of value object (tuples, closures, ...).
\<close>

datatype 'f Value =
    IntValue int64
  | FloatValue 'f
  | BoolValue bool
  | TensorValue DLTensor
  | OtherValue

text \<open>
  The ways a rule ends without a result: the three messages of \<open>LOG(FATAL)\<close>, a failed
  \<open>CHECK\<close>, and \<open>UndefinedBehaviour\<close> for an integer division or remainder that C++
  leaves undefined and the processor answers with a trap.
\<close>

datatype error =
    CannotBroadcast | NotImplementedError | ZeroDivisionError | CheckFailed
  | UndefinedBehaviour

text \<open>
  Modelled from the spec: \<open>TensorValue::Assemble\<close> is declared outside src/; a tensor
  value is "device placement, element data type, and an ordered sequence of dimension
  sizes", so assembling one stores the three arguments.
\<close>

definition Assemble :: "Context \<Rightarrow> DLDataType \<Rightarrow> int64 list \<Rightarrow> DLTensor" where
  "Assemble c d s = \<lparr>ctx = c, dtype = d, shape = s\<rparr>"

subsection \<open>MakeBinaryTensor\<close>

text \<open>
  The loop of \<open>MakeBinaryTensor\<close>, started at \<open>i = 0\<close> with \<open>oshape\<close> a vector of
  \<open>ndim\<close> zeros. \<open>LOG(FATAL) << "Cannot broadcast"\<close> is the error \<open>CannotBroadcast\<close>.
\<close>

function broadcast_loop ::
  "nat \<Rightarrow> nat \<Rightarrow> int64 list \<Rightarrow> int64 list \<Rightarrow> int64 list \<Rightarrow> error + int64 list" where
  "broadcast_loop i n s1 s2 oshape =
     (if i < n then
        (let dim_1 = (if i < length s1 then s1 ! (length s1 - 1 - i) else 1);
             dim_2 = (if i < length s2 then s2 ! (length s2 - 1 - i) else 1)
         in if dim_1 = 1 then broadcast_loop (i + 1) n s1 s2 (oshape[n - 1 - i := dim_2])
            else if dim_2 = 1 then broadcast_loop (i + 1) n s1 s2 (oshape[n - 1 - i := dim_1])
            else if dim_1 = dim_2 then broadcast_loop (i + 1) n s1 s2 (oshape[n - 1 - i := dim_1])
            else Inl CannotBroadcast)
      else Inr oshape)"
  by pat_completeness auto
termination
  by (relation "measure (\<lambda>(i, n, s1, s2, oshape). n - i)") auto

declare broadcast_loop.simps [simp del]

definition MakeBinaryTensor :: "DLTensor \<Rightarrow> DLTensor \<Rightarrow> error + DLTensor" where
  "MakeBinaryTensor x1 x2 =
     (let ndim_1 = ndim x1;
          ndim_2 = ndim x2;
          n = max ndim_1 ndim_2
      in case broadcast_loop 0 n (shape x1) (shape x2) (replicate n 0) of
           Inl e \<Rightarrow> Inl e
         | Inr oshape \<Rightarrow> Inr (Assemble (ctx x1) (dtype x1) oshape))"

text \<open>
  The words of the specification, for comparison with the loop: the size of a shape at
  position \<open>i\<close> counted from the trailing dimension (1 where the shape has no such
  dimension), when two sizes can be broadcast, and the size chosen.
\<close>

definition aligned_dim :: "int64 list \<Rightarrow> nat \<Rightarrow> int64" where
  "aligned_dim s i = (if i < length s then s ! (length s - 1 - i) else 1)"

definition broadcastable :: "int64 \<Rightarrow> int64 \<Rightarrow> bool" where
  "broadcastable d1 d2 = (d1 = 1 \<or> d2 = 1 \<or> d1 = d2)"

definition broadcast_dim :: "int64 \<Rightarrow> int64 \<Rightarrow> int64" where
  "broadcast_dim d1 d2 = (if d1 = 1 then d2 else if d2 = 1 then d1 else d1)"

definition broadcast_shape :: "int64 list \<Rightarrow> int64 list \<Rightarrow> int64 list" where
  "broadcast_shape s1 s2 =
     (let n = max (length s1) (length s2)
      in map (\<lambda>k. broadcast_dim (aligned_dim s1 (n - 1 - k)) (aligned_dim s2 (n - 1 - k))) [0..<n])"

definition all_broadcastable :: "int64 list \<Rightarrow> int64 list \<Rightarrow> bool" where
  "all_broadcastable s1 s2 =
     list_all (\<lambda>i. broadcastable (aligned_dim s1 i) (aligned_dim s2 i))
       [0..<max (length s1) (length s2)]"


text \<open>
  What the loop returns when it is entered at position \<open>i\<close> with \<open>oshape\<close> and no
  pair of sizes fails: the entries below \<open>n - i\<close> are the ones it still writes, the
  others are those of \<open>oshape\<close>.
\<close>

definition loop_result ::
  "nat \<Rightarrow> nat \<Rightarrow> int64 list \<Rightarrow> int64 list \<Rightarrow> int64 list \<Rightarrow> int64 list" where
  "loop_result i n s1 s2 oshape =
     map (\<lambda>k. if k < n - i
              then broadcast_dim (aligned_dim s1 (n - 1 - k)) (aligned_dim s2 (n - 1 - k))
              else oshape ! k) [0..<n]"

subsection \<open>Scalar payloads and the host operators\<close>

text \<open>
  The \<open>data\<close> field of the three scalar objects (\<open>int64_t\<close>, \<open>double\<close>, \<open>bool\<close>), and
  the value of a C++ expression over two of them, with its static type: \<open>int\<close> (when
  both operands are \<open>bool\<close>, after integral promotion), \<open>int64_t\<close>, \<open>double\<close> or \<open>bool\<close>.
\<close>

datatype 'f data = DInt int64 | DFloat 'f | DBool bool

datatype 'f cxx_value = RInt32 "32 word" | RInt64 int64 | RFloat 'f | RBool bool

text \<open>The operators \<open>MNM_BINARY_SCALAR\<close> is expanded with.\<close>

datatype binop = Plus | Minus | Times | Lt | Gt | Le | Ge | EqEq | NotEq

text \<open>
  Signed division and remainder of C++ truncate the quotient towards zero. Both are
  undefined when the divisor is zero and when the quotient cannot be represented in the
  operand type, that is for the least integer divided by \<open>-1\<close>; the processor traps
  there (SIGFPE), and the model has no result: \<open>None\<close>.
\<close>

definition cxx_quot :: "'a::len word \<Rightarrow> 'a word \<Rightarrow> 'a word option" where
  "cxx_quot a b =
     (if sint b = 0 \<or> (sint a = - (2 ^ (LENGTH('a) - 1)) \<and> sint b = - 1) then None
      else Some (word_of_int (sint a sdiv sint b)))"

definition cxx_rem :: "'a::len word \<Rightarrow> 'a word \<Rightarrow> 'a word option" where
  "cxx_rem a b =
     (if sint b = 0 \<or> (sint a = - (2 ^ (LENGTH('a) - 1)) \<and> sint b = - 1) then None
      else Some (word_of_int (sint a smod sint b)))"

fun int_binop :: "binop \<Rightarrow> 'a::len word \<Rightarrow> 'a word \<Rightarrow> 'a word + bool" where
  "int_binop Plus a b = Inl (a + b)"
| "int_binop Minus a b = Inl (a - b)"
| "int_binop Times a b = Inl (a * b)"
| "int_binop Lt a b = Inr (sint a < sint b)"
| "int_binop Gt a b = Inr (sint a > sint b)"
| "int_binop Le a b = Inr (sint a \<le> sint b)"
| "int_binop Ge a b = Inr (sint a \<ge> sint b)"
| "int_binop EqEq a b = Inr (a = b)"
| "int_binop NotEq a b = Inr (a \<noteq> b)"

definition int32_binop :: "binop \<Rightarrow> 32 word \<Rightarrow> 32 word \<Rightarrow> 'f cxx_value" where
  "int32_binop tok a b = (case int_binop tok a b of Inl w \<Rightarrow> RInt32 w | Inr t \<Rightarrow> RBool t)"

definition int64_binop :: "binop \<Rightarrow> int64 \<Rightarrow> int64 \<Rightarrow> 'f cxx_value" where
  "int64_binop tok a b = (case int_binop tok a b of Inl w \<Rightarrow> RInt64 w | Inr t \<Rightarrow> RBool t)"

fun double_binop :: "'f host_float \<Rightarrow> binop \<Rightarrow> 'f \<Rightarrow> 'f \<Rightarrow> 'f cxx_value" where
  "double_binop fl Plus a b = RFloat (f_add fl a b)"
| "double_binop fl Minus a b = RFloat (f_sub fl a b)"
| "double_binop fl Times a b = RFloat (f_mul fl a b)"
| "double_binop fl Lt a b = RBool (f_lt fl a b)"
| "double_binop fl Gt a b = RBool (f_gt fl a b)"
| "double_binop fl Le a b = RBool (f_le fl a b)"
| "double_binop fl Ge a b = RBool (f_ge fl a b)"
| "double_binop fl EqEq a b = RBool (f_eq fl a b)"
| "double_binop fl NotEq a b = RBool (f_ne fl a b)"

text \<open>The conversions of one payload to \<open>double\<close> and to \<open>int64_t\<close>.\<close>

fun to_double :: "'f host_float \<Rightarrow> 'f data \<Rightarrow> 'f" where
  "to_double fl (DInt a) = f_of_int fl (sint a)"
| "to_double fl (DFloat a) = a"
| "to_double fl (DBool a) = f_of_int fl (if a then 1 else 0)"

fun to_int64 :: "'f host_float \<Rightarrow> 'f data \<Rightarrow> int64" where
  "to_int64 fl (DInt a) = a"
| "to_int64 fl (DFloat a) = word_of_int (f_to_int fl a)"
| "to_int64 fl (DBool a) = (if a then 1 else 0)"

text \<open>
  \<open>v1->data op v2->data\<close>, one equation for each pair of operand types the macro body
  is compiled for, after the usual arithmetic conversions.
\<close>

fun cxx_binop :: "'f host_float \<Rightarrow> binop \<Rightarrow> 'f data \<Rightarrow> 'f data \<Rightarrow> 'f cxx_value" where
  "cxx_binop fl tok (DInt a) (DInt b) = int64_binop tok a b"
| "cxx_binop fl tok (DInt a) (DFloat b) = double_binop fl tok (f_of_int fl (sint a)) b"
| "cxx_binop fl tok (DInt a) (DBool b) = int64_binop tok a (if b then 1 else 0)"
| "cxx_binop fl tok (DFloat a) (DInt b) = double_binop fl tok a (f_of_int fl (sint b))"
| "cxx_binop fl tok (DFloat a) (DFloat b) = double_binop fl tok a b"
| "cxx_binop fl tok (DFloat a) (DBool b) = double_binop fl tok a (f_of_int fl (if b then 1 else 0))"
| "cxx_binop fl tok (DBool a) (DInt b) = int64_binop tok (if a then 1 else 0) b"
| "cxx_binop fl tok (DBool a) (DFloat b) = double_binop fl tok (f_of_int fl (if a then 1 else 0)) b"
| "cxx_binop fl tok (DBool a) (DBool b) = int32_binop tok (if a then 1 else 0) (if b then 1 else 0)"

text \<open>
  \<open>s1->data / s2->data\<close> of the divide rule, for the same nine pairs of operand types;
  \<open>None\<close> where the integer quotient is undefined.
\<close>

fun cxx_divide :: "'f host_float \<Rightarrow> 'f data \<Rightarrow> 'f data \<Rightarrow> 'f cxx_value option" where
  "cxx_divide fl (DInt a) (DInt b) = map_option RInt64 (cxx_quot a b)"
| "cxx_divide fl (DInt a) (DFloat b) = Some (RFloat (f_div fl (f_of_int fl (sint a)) b))"
| "cxx_divide fl (DInt a) (DBool b) = map_option RInt64 (cxx_quot a (if b then 1 else 0))"
| "cxx_divide fl (DFloat a) (DInt b) = Some (RFloat (f_div fl a (f_of_int fl (sint b))))"
| "cxx_divide fl (DFloat a) (DFloat b) = Some (RFloat (f_div fl a b))"
| "cxx_divide fl (DFloat a) (DBool b) = Some (RFloat (f_div fl a (f_of_int fl (if b then 1 else 0))))"
| "cxx_divide fl (DBool a) (DInt b) = map_option RInt64 (cxx_quot (if a then 1 else 0) b)"
| "cxx_divide fl (DBool a) (DFloat b) = Some (RFloat (f_div fl (f_of_int fl (if a then 1 else 0)) b))"
| "cxx_divide fl (DBool a) (DBool b) =
     map_option RInt32 (cxx_quot (if a then 1 else 0) (if b then 1 else 0))"

text \<open>\<open>s2->data == 0\<close>: the literal \<open>0\<close> is converted to the type of the payload.\<close>

fun data_eq_0 :: "'f host_float \<Rightarrow> 'f data \<Rightarrow> bool" where
  "data_eq_0 fl (DInt a) = (a = 0)"
| "data_eq_0 fl (DFloat a) = f_eq fl a (f_of_int fl 0)"
| "data_eq_0 fl (DBool a) = ((if a then 1 else 0) = (0 :: 32 word))"

fun is_FloatValueObj :: "'f data \<Rightarrow> bool" where
  "is_FloatValueObj (DFloat a) = True"
| "is_FloatValueObj _ = False"

text \<open>
  Modelled from the spec: \<open>ScalarValue::make\<close> is declared outside src/; a scalar value
  is "a tagged numeric payload, one of integer, floating-point, boolean, stored widened
  to a common numeric representation (int64 / double / bool)", so an \<open>int\<close> is
  sign-extended into an integer scalar.
\<close>

fun ScalarValue_make :: "'f cxx_value \<Rightarrow> 'f Value" where
  "ScalarValue_make (RInt32 w) = IntValue (scast w)"
| "ScalarValue_make (RInt64 w) = IntValue w"
| "ScalarValue_make (RFloat d) = FloatValue d"
| "ScalarValue_make (RBool t) = BoolValue t"

subsection \<open>CallValues and the declaration rules\<close>

text \<open>
  The argument schemas. The operands of \<open>BinaryDxArgs\<close> that the rule reads, \<open>x1\<close> and
  \<open>dy\<close>, are read as \<open>DLTensor*\<close>; the conversion from a value is outside src/, and
  the schema holds the two tensors.
\<close>

datatype 'f Args =
    BinaryUfuncArgs "'f Value" "'f Value" "'f Value option" "'f Value option"
  | BinaryDxArgs DLTensor DLTensor
  | OtherArgs

record 'f CallValues =
  callee :: "string option"
  args :: "'f Args"
  out :: "'f Value option"
  call_ctx :: Context

text \<open>
  How a piece of a rule's body ends: it falls through to the next statement with the
  call record untouched, it returns with the call record as it then is, or it throws
  after \<open>LOG(FATAL)\<close> or a failed \<open>CHECK\<close>, again with the call record as it then is.
\<close>

datatype 'f ctrl = Fallthrough | Returned "'f CallValues" | Thrown error "'f CallValues"

type_synonym 'f outcome = "(error \<times> 'f CallValues) + 'f CallValues"

definition MNM_SWITCH_SCALAR :: "'f Value \<Rightarrow> ('f data \<Rightarrow> 'f ctrl) \<Rightarrow> 'f ctrl" where
  "MNM_SWITCH_SCALAR v body =
     (case v of
        IntValue d \<Rightarrow> body (DInt d)
      | FloatValue d \<Rightarrow> body (DFloat d)
      | BoolValue d \<Rightarrow> body (DBool d)
      | _ \<Rightarrow> Fallthrough)"

definition MNM_BINARY_SCALAR ::
  "'f host_float \<Rightarrow> binop \<Rightarrow> 'f Value \<Rightarrow> 'f Value \<Rightarrow> 'f CallValues \<Rightarrow> 'f ctrl" where
  "MNM_BINARY_SCALAR fl tok x1 x2 call =
     MNM_SWITCH_SCALAR x1 (\<lambda>v1. MNM_SWITCH_SCALAR x2 (\<lambda>v2.
       Returned (call\<lparr>callee := None, out := Some (ScalarValue_make (cxx_binop fl tok v1 v2))\<rparr>)))"

definition MNM_BINARY_TENSOR :: "'f Value \<Rightarrow> 'f Value \<Rightarrow> 'f CallValues \<Rightarrow> 'f ctrl" where
  "MNM_BINARY_TENSOR x1 x2 call =
     (case x1 of
        TensorValue t1 \<Rightarrow>
          (case x2 of
             TensorValue t2 \<Rightarrow>
               (case MakeBinaryTensor t1 t2 of
                  Inl e \<Rightarrow> Thrown e call
                | Inr tv \<Rightarrow> Returned (call\<lparr>out := Some (TensorValue tv), call_ctx := ctx tv\<rparr>))
           | _ \<Rightarrow> Fallthrough)
      | _ \<Rightarrow> Fallthrough)"

text \<open>Two statements in sequence, and the end of a rule's body.\<close>

definition and_then :: "'f ctrl \<Rightarrow> 'f ctrl \<Rightarrow> 'f ctrl" where
  "and_then c1 c2 = (case c1 of Fallthrough \<Rightarrow> c2 | _ \<Rightarrow> c1)"

definition not_implemented :: "'f CallValues \<Rightarrow> 'f ctrl \<Rightarrow> 'f outcome" where
  "not_implemented call c =
     (case c of
        Fallthrough \<Rightarrow> Inl (NotImplementedError, call)
      | Returned call' \<Rightarrow> Inr call'
      | Thrown e call' \<Rightarrow> Inl (e, call'))"

text \<open>The rule of add, subtract and multiply, which differ in the operator only.\<close>

definition scalar_or_tensor_rule :: "'f host_float \<Rightarrow> binop \<Rightarrow> 'f CallValues \<Rightarrow> 'f outcome" where
  "scalar_or_tensor_rule fl tok call =
     (case args call of
        BinaryUfuncArgs x1 x2 out_arg where_arg \<Rightarrow>
          not_implemented call
            (if out_arg = None \<and> where_arg = None
             then and_then (MNM_BINARY_SCALAR fl tok x1 x2 call) (MNM_BINARY_TENSOR x1 x2 call)
             else Fallthrough)
      | _ \<Rightarrow> Inl (CheckFailed, call))"

text \<open>The rule of the six comparisons.\<close>

definition scalar_rule :: "'f host_float \<Rightarrow> binop \<Rightarrow> 'f CallValues \<Rightarrow> 'f outcome" where
  "scalar_rule fl tok call =
     (case args call of
        BinaryUfuncArgs x1 x2 out_arg where_arg \<Rightarrow>
          not_implemented call
            (if out_arg = None \<and> where_arg = None
             then MNM_BINARY_SCALAR fl tok x1 x2 call
             else Fallthrough)
      | _ \<Rightarrow> Inl (CheckFailed, call))"

definition mnm_op_add :: "'f host_float \<Rightarrow> 'f CallValues \<Rightarrow> 'f outcome" where
  "mnm_op_add fl = scalar_or_tensor_rule fl Plus"

definition mnm_op_subtract :: "'f host_float \<Rightarrow> 'f CallValues \<Rightarrow> 'f outcome" where
  "mnm_op_subtract fl = scalar_or_tensor_rule fl Minus"

definition mnm_op_multiply :: "'f host_float \<Rightarrow> 'f CallValues \<Rightarrow> 'f outcome" where
  "mnm_op_multiply fl = scalar_or_tensor_rule fl Times"

definition mnm_op_divide :: "'f host_float \<Rightarrow> 'f CallValues \<Rightarrow> 'f outcome" where
  "mnm_op_divide fl call =
     (case args call of
        BinaryUfuncArgs x1 x2 out_arg where_arg \<Rightarrow>
          not_implemented call
            (if out_arg = None \<and> where_arg = None
             then MNM_SWITCH_SCALAR x1 (\<lambda>s1. MNM_SWITCH_SCALAR x2 (\<lambda>s2.
                    if data_eq_0 fl s2 then Thrown ZeroDivisionError call
                    else
                      (let call1 = call\<lparr>callee := None\<rparr>
                       in case cxx_divide fl s1 s2 of
                            None \<Rightarrow> Thrown UndefinedBehaviour call1
                          | Some q \<Rightarrow> Returned (call1\<lparr>out := Some (ScalarValue_make q)\<rparr>))))
             else Fallthrough)
      | _ \<Rightarrow> Inl (CheckFailed, call))"

definition mnm_op_mod :: "'f host_float \<Rightarrow> 'f CallValues \<Rightarrow> 'f outcome" where
  "mnm_op_mod fl call =
     (case args call of
        BinaryUfuncArgs x1 x2 out_arg where_arg \<Rightarrow>
          not_implemented call
            (if out_arg = None \<and> where_arg = None
             then MNM_SWITCH_SCALAR x1 (\<lambda>s1. MNM_SWITCH_SCALAR x2 (\<lambda>s2.
                    if data_eq_0 fl s2 then Thrown ZeroDivisionError call
                    else
                      (let call1 = call\<lparr>callee := None\<rparr>
                       in if is_FloatValueObj s1 \<or> is_FloatValueObj s2
                          then (let a1 = to_double fl s1;
                                    a2 = to_double fl s2;
                                    result = f_mod fl a1 a2
                                in Returned (call1\<lparr>out := Some (ScalarValue_make (RFloat result))\<rparr>))
                          else (let a1 = to_int64 fl s1;
                                    a2 = to_int64 fl s2
                                in case cxx_rem a1 a2 of
                                     None \<Rightarrow> Thrown UndefinedBehaviour call1
                                   | Some result \<Rightarrow>
                                       Returned (call1\<lparr>out := Some (ScalarValue_make (RInt64 result))\<rparr>)))))
             else Fallthrough)
      | _ \<Rightarrow> Inl (CheckFailed, call))"

definition mnm_op_less :: "'f host_float \<Rightarrow> 'f CallValues \<Rightarrow> 'f outcome" where
  "mnm_op_less fl = scalar_rule fl Lt"

definition mnm_op_greater :: "'f host_float \<Rightarrow> 'f CallValues \<Rightarrow> 'f outcome" where
  "mnm_op_greater fl = scalar_rule fl Gt"

definition mnm_op_less_equal :: "'f host_float \<Rightarrow> 'f CallValues \<Rightarrow> 'f outcome" where
  "mnm_op_less_equal fl = scalar_rule fl Le"

definition mnm_op_greater_equal :: "'f host_float \<Rightarrow> 'f CallValues \<Rightarrow> 'f outcome" where
  "mnm_op_greater_equal fl = scalar_rule fl Ge"

definition mnm_op_equal :: "'f host_float \<Rightarrow> 'f CallValues \<Rightarrow> 'f outcome" where
  "mnm_op_equal fl = scalar_rule fl EqEq"

definition mnm_op_not_equal :: "'f host_float \<Rightarrow> 'f CallValues \<Rightarrow> 'f outcome" where
  "mnm_op_not_equal fl = scalar_rule fl NotEq"

text \<open>
  The loop of \<open>mnm.op.add_dx\<close>: one \<open>CHECK\<close> for each dimension of \<open>x\<close>, against the
  dimension of \<open>dy\<close> at \<open>i + offset\<close>.
\<close>

function add_dx_loop :: "nat \<Rightarrow> nat \<Rightarrow> int64 list \<Rightarrow> int64 list \<Rightarrow> bool" where
  "add_dx_loop i offset xs dys =
     (if i < length xs
      then (if xs ! i = 1 \<or> xs ! i = dys ! (i + offset)
            then add_dx_loop (i + 1) offset xs dys
            else False)
      else True)"
  by pat_completeness auto
termination
  by (relation "measure (\<lambda>(i, offset, xs, dys). length xs - i)") auto

declare add_dx_loop.simps [simp del]

definition mnm_op_add_dx :: "'f CallValues \<Rightarrow> 'f outcome" where
  "mnm_op_add_dx call =
     (case args call of
        BinaryDxArgs x dy \<Rightarrow>
          if \<not> ndim x \<le> ndim dy then Inl (CheckFailed, call)
          else if \<not> add_dx_loop 0 (ndim dy - ndim x) (shape x) (shape dy)
          then Inl (CheckFailed, call)
          else Inr (call\<lparr>call_ctx := ctx x,
                         out := Some (TensorValue (Assemble (ctx x) (dtype x) (take (ndim x) (shape x))))\<rparr>)
      | _ \<Rightarrow> Inl (CheckFailed, call))"

text \<open>The operators declared in the file, and the rule registered for each.\<close>

datatype binary_ufunc =
    Add | Subtract | Multiply | Divide | Mod
  | Less | Greater | LessEqual | GreaterEqual | Equal | NotEqual

fun declared :: "'f host_float \<Rightarrow> binary_ufunc \<Rightarrow> 'f CallValues \<Rightarrow> 'f outcome" where
  "declared fl Add = mnm_op_add fl"
| "declared fl Subtract = mnm_op_subtract fl"
| "declared fl Multiply = mnm_op_multiply fl"
| "declared fl Divide = mnm_op_divide fl"
| "declared fl Mod = mnm_op_mod fl"
| "declared fl Less = mnm_op_less fl"
| "declared fl Greater = mnm_op_greater fl"
| "declared fl LessEqual = mnm_op_less_equal fl"
| "declared fl GreaterEqual = mnm_op_greater_equal fl"
| "declared fl Equal = mnm_op_equal fl"
| "declared fl NotEqual = mnm_op_not_equal fl"

section \<open>The dialect dispatch pass (src/pass/dispatch_dialect.cc)\<close>

text \<open>
  The expressions the pass walks: variables, global variables, constants, operator
  references, tuples and projections, calls, functions, let bindings and conditionals.
  An operator reference holds the operator's name; a function holds its parameters, its
  body and its attributes, a dictionary from attribute names to integers.
\<close>

datatype expr =
    VarNode string
  | GlobalVarNode string
  | ConstantNode int
  | OpNode string
  | TupleNode "expr list"
  | TupleGetItemNode expr nat
  | CallNode expr "expr list"
  | FunctionNode "string list" expr "(string \<times> int) list"
  | LetNode string expr expr
  | IfNode expr expr expr

definition kPrimitive :: string where
  "kPrimitive = ''Primitive''"

definition HasNonzeroAttr :: "(string \<times> int) list \<Rightarrow> string \<Rightarrow> bool" where
  "HasNonzeroAttr attrs key = (case map_of attrs key of None \<Rightarrow> False | Some v \<Rightarrow> v \<noteq> 0)"

text \<open>
  \<open>DispatchMutator\<close>. \<open>IsDialectOp\<close> and \<open>OpDialect::Dispatch\<close> are outside src/ and
  are the parameters \<open>is_dialect\<close> and \<open>dispatch\<close>; \<open>dispatch\<close> gives \<open>None\<close> for an
  undefined operator reference. The two visitors of the class are the equations for
  \<open>FunctionNode\<close> and \<open>OpNode\<close>.

  Modelled from the spec: the inherited visitors of the other node kinds are outside
  src/; the traversal is "a structural, bottom-up (or equivalently,
  congruence-preserving) tree rewrite", so every other node is rebuilt from its
  rewritten children.
\<close>

fun Mutate ::
  "(string \<Rightarrow> bool) \<Rightarrow> (string \<Rightarrow> DevType \<Rightarrow> string option) \<Rightarrow> DevType \<Rightarrow> expr \<Rightarrow> expr" where
  "Mutate is_dialect dispatch dev_type (FunctionNode params body attrs) =
     (if HasNonzeroAttr attrs kPrimitive then FunctionNode params body attrs
      else FunctionNode params (Mutate is_dialect dispatch dev_type body) attrs)"
| "Mutate is_dialect dispatch dev_type (OpNode op) =
     (if \<not> is_dialect op
      then (case dispatch op dev_type of Some dialect_op \<Rightarrow> OpNode dialect_op | None \<Rightarrow> OpNode op)
      else OpNode op)"
| "Mutate is_dialect dispatch dev_type (VarNode x) = VarNode x"
| "Mutate is_dialect dispatch dev_type (GlobalVarNode g) = GlobalVarNode g"
| "Mutate is_dialect dispatch dev_type (ConstantNode c) = ConstantNode c"
| "Mutate is_dialect dispatch dev_type (TupleNode es) =
     TupleNode (map (Mutate is_dialect dispatch dev_type) es)"
| "Mutate is_dialect dispatch dev_type (TupleGetItemNode t i) =
     TupleGetItemNode (Mutate is_dialect dispatch dev_type t) i"
| "Mutate is_dialect dispatch dev_type (CallNode f xs) =
     CallNode (Mutate is_dialect dispatch dev_type f) (map (Mutate is_dialect dispatch dev_type) xs)"
| "Mutate is_dialect dispatch dev_type (LetNode x v body) =
     LetNode x (Mutate is_dialect dispatch dev_type v) (Mutate is_dialect dispatch dev_type body)"
| "Mutate is_dialect dispatch dev_type (IfNode c t e) =
     IfNode (Mutate is_dialect dispatch dev_type c) (Mutate is_dialect dispatch dev_type t)
       (Mutate is_dialect dispatch dev_type e)"

text \<open>
  \<open>Dispatch\<close>: the ambient device \<open>Device::Current(true)\<close> is the argument \<open>dev\<close>; the
  result is the expression returned and the log lines written.
\<close>

datatype log_line = WARNING string

definition Dispatch ::
  "(string \<Rightarrow> bool) \<Rightarrow> (string \<Rightarrow> DevType \<Rightarrow> string option) \<Rightarrow> Context \<Rightarrow> expr
     \<Rightarrow> expr \<times> log_line list" where
  "Dispatch is_dialect dispatch dev expr =
     (if device_type dev = kUnknown \<or> device_id dev < 0
      then (expr, [WARNING ''Device is not specified, skip DispatchDialect pass.''])
      else (Mutate is_dialect dispatch (device_type dev) expr, []))"

text \<open>The direct sub-expressions of a node, and the sub-expression at a path of child indices.\<close>

fun children :: "expr \<Rightarrow> expr list" where
  "children (TupleNode es) = es"
| "children (TupleGetItemNode t i) = [t]"
| "children (CallNode f xs) = f # xs"
| "children (FunctionNode params body attrs) = [body]"
| "children (LetNode x v body) = [v, body]"
| "children (IfNode c t e) = [c, t, e]"
| "children _ = []"

primrec subexpr_at :: "nat list \<Rightarrow> expr \<Rightarrow> expr option" where
  "subexpr_at [] e = Some e"
| "subexpr_at (i # path) e =
     (if i < length (children e) then subexpr_at path (children e ! i) else None)"

definition is_primitive_function :: "expr \<Rightarrow> bool" where
  "is_primitive_function e =
     (case e of FunctionNode params body attrs \<Rightarrow> HasNonzeroAttr attrs kPrimitive | _ \<Rightarrow> False)"

subsection \<open>The registry of dialect operators\<close>

text \<open>
  Modelled from the spec: the registry, \<open>IsDialectOp\<close> and \<open>OpDialect::Dispatch\<close> are
  outside src/. An operator has "a set of dialect variants keyed by device type, each
  carrying a priority level (higher wins)"; a dialect operator is "a device- or
  backend-specific implementation of a base operator"; the lookup returns "the
  highest-priority match or none". A registry snapshot is the list of registered
  variants; among variants of equal priority the one registered first is taken.
\<close>

record dialect_variant =
  base_op :: string
  variant_dev :: DevType
  plevel :: int
  dialect_op :: string

type_synonym registry = "dialect_variant list"

definition IsDialectOp :: "registry \<Rightarrow> string \<Rightarrow> bool" where
  "IsDialectOp reg op = list_ex (\<lambda>v. dialect_op v = op) reg"

fun highest :: "dialect_variant \<Rightarrow> dialect_variant list \<Rightarrow> dialect_variant" where
  "highest best [] = best"
| "highest best (v # vs) = highest (if plevel best < plevel v then v else best) vs"

definition OpDialect_Dispatch :: "registry \<Rightarrow> string \<Rightarrow> DevType \<Rightarrow> string option" where
  "OpDialect_Dispatch reg op dev_type =
     (case filter (\<lambda>v. base_op v = op \<and> variant_dev v = dev_type) reg of
        [] \<Rightarrow> None
      | v # vs \<Rightarrow> Some (dialect_op (highest v vs)))"

definition DispatchDialect :: "registry \<Rightarrow> Context \<Rightarrow> expr \<Rightarrow> expr" where
  "DispatchDialect reg dev f = fst (Dispatch (IsDialectOp reg) (OpDialect_Dispatch reg) dev f)"

section \<open>Reference notions and sample inputs\<close>

text \<open>
  The larger of two dimension sizes, read as signed 64-bit integers, and the shape
  made of the larger aligned size at every position.
\<close>

definition max_dim :: "int64 \<Rightarrow> int64 \<Rightarrow> int64" where
  "max_dim d1 d2 = (if sint d1 < sint d2 then d2 else d1)"

definition max_shape :: "int64 list \<Rightarrow> int64 list \<Rightarrow> int64 list" where
  "max_shape s1 s2 =
     (let n = max (length s1) (length s2)
      in map (\<lambda>k. max_dim (aligned_dim s1 (n - 1 - k)) (aligned_dim s2 (n - 1 - k))) [0..<n])"

text \<open>
  A host float for running the rules on concrete inputs: exact arithmetic on the
  reals, with the remainder of the quotient truncated towards zero.
\<close>

definition exact_float :: "real host_float" where
  "exact_float =
     \<lparr>f_of_int = of_int,
      f_to_int = (\<lambda>x. if x < 0 then \<lceil>x\<rceil> else \<lfloor>x\<rfloor>),
      f_add = (+), f_sub = (-), f_mul = (*), f_div = (/),
      f_mod = (\<lambda>a b. a - b * of_int (if a / b < 0 then \<lceil>a / b\<rceil> else \<lfloor>a / b\<rfloor>)),
      f_lt = (<), f_gt = (\<lambda>a b. b < a), f_le = (\<le>), f_ge = (\<lambda>a b. b \<le> a),
      f_eq = (=), f_ne = (\<noteq>)\<rparr>"

definition cpu0 :: Context where
  "cpu0 = \<lparr>device_type = kCPU, device_id = 0\<rparr>"

definition f32 :: DLDataType where
  "f32 = \<lparr>code = 2, bits = 32, lanes = 1\<rparr>"

definition tensor_of :: "int64 list \<Rightarrow> DLTensor" where
  "tensor_of s = \<lparr>ctx = cpu0, dtype = f32, shape = s\<rparr>"

text \<open>A call record as the lowering step hands it to a rule: callee set, no output yet.\<close>

definition call_of :: "string \<Rightarrow> 'f Args \<Rightarrow> 'f CallValues" where
  "call_of name a =
     \<lparr>callee = Some name, args = a, out = None,
      call_ctx = \<lparr>device_type = kUnknown, device_id = -1\<rparr>\<rparr>"

text \<open>The scalar value object that holds a payload.\<close>

fun scalar_of :: "'f data \<Rightarrow> 'f Value" where
  "scalar_of (DInt a) = IntValue a"
| "scalar_of (DFloat a) = FloatValue a"
| "scalar_of (DBool a) = BoolValue a"

fun is_scalar :: "'f Value \<Rightarrow> bool" where
  "is_scalar (IntValue a) = True"
| "is_scalar (FloatValue a) = True"
| "is_scalar (BoolValue a) = True"
| "is_scalar _ = False"

text \<open>
  The words of the specification for the scalar path: the two payloads widened to a
  common numeric representation (\<open>double\<close> as soon as one of them is a float, \<open>int64\<close>
  otherwise), the host operator of each declared operator on the widened pair (with no
  value where the host's integer quotient or remainder is undefined), when a payload
  counts as zero, and the one pair of nonzero integer payloads whose quotient cannot be
  represented: the least \<open>int64\<close> and \<open>-1\<close>.
\<close>

datatype 'f widened = WInt int64 int64 | WFloat 'f 'f

definition widen :: "'f host_float \<Rightarrow> 'f data \<Rightarrow> 'f data \<Rightarrow> 'f widened" where
  "widen fl d1 d2 =
     (if is_FloatValueObj d1 \<or> is_FloatValueObj d2
      then WFloat (to_double fl d1) (to_double fl d2)
      else WInt (to_int64 fl d1) (to_int64 fl d2))"

fun host_operator :: "'f host_float \<Rightarrow> binary_ufunc \<Rightarrow> 'f widened \<Rightarrow> 'f Value option" where
  "host_operator fl Add (WInt a b) = Some (IntValue (a + b))"
| "host_operator fl Subtract (WInt a b) = Some (IntValue (a - b))"
| "host_operator fl Multiply (WInt a b) = Some (IntValue (a * b))"
| "host_operator fl Divide (WInt a b) = map_option IntValue (cxx_quot a b)"
| "host_operator fl Mod (WInt a b) = map_option IntValue (cxx_rem a b)"
| "host_operator fl Less (WInt a b) = Some (BoolValue (sint a < sint b))"
| "host_operator fl Greater (WInt a b) = Some (BoolValue (sint b < sint a))"
| "host_operator fl LessEqual (WInt a b) = Some (BoolValue (sint a \<le> sint b))"
| "host_operator fl GreaterEqual (WInt a b) = Some (BoolValue (sint b \<le> sint a))"
| "host_operator fl Equal (WInt a b) = Some (BoolValue (a = b))"
| "host_operator fl NotEqual (WInt a b) = Some (BoolValue (a \<noteq> b))"
| "host_operator fl Add (WFloat a b) = Some (FloatValue (f_add fl a b))"
| "host_operator fl Subtract (WFloat a b) = Some (FloatValue (f_sub fl a b))"
| "host_operator fl Multiply (WFloat a b) = Some (FloatValue (f_mul fl a b))"
| "host_operator fl Divide (WFloat a b) = Some (FloatValue (f_div fl a b))"
| "host_operator fl Mod (WFloat a b) = Some (FloatValue (f_mod fl a b))"
| "host_operator fl Less (WFloat a b) = Some (BoolValue (f_lt fl a b))"
| "host_operator fl Greater (WFloat a b) = Some (BoolValue (f_gt fl a b))"
| "host_operator fl LessEqual (WFloat a b) = Some (BoolValue (f_le fl a b))"
| "host_operator fl GreaterEqual (WFloat a b) = Some (BoolValue (f_ge fl a b))"
| "host_operator fl Equal (WFloat a b) = Some (BoolValue (f_eq fl a b))"
| "host_operator fl NotEqual (WFloat a b) = Some (BoolValue (f_ne fl a b))"

fun widened_is_zero :: "'f host_float \<Rightarrow> 'f data \<Rightarrow> bool" where
  "widened_is_zero fl (DInt a) = (sint a = 0)"
| "widened_is_zero fl (DFloat a) = f_eq fl a (f_of_int fl 0)"
| "widened_is_zero fl (DBool a) = (\<not> a)"

fun least_by_minus_one :: "'f data \<Rightarrow> 'f data \<Rightarrow> bool" where
  "least_by_minus_one (DInt a) (DInt b) = (sint a = - (2 ^ 63) \<and> sint b = - 1)"
| "least_by_minus_one _ _ = False"

text \<open>
  The integer quotient rounded towards zero, and the remainder it leaves.
\<close>

definition trunc_quot :: "int \<Rightarrow> int \<Rightarrow> int" where
  "trunc_quot k l = (if (k < 0) = (l < 0) then \<bar>k\<bar> div \<bar>l\<bar> else - (\<bar>k\<bar> div \<bar>l\<bar>))"

definition trunc_rem :: "int \<Rightarrow> int \<Rightarrow> int" where
  "trunc_rem k l = k - l * trunc_quot k l"

text \<open>A registry and a function for running the pass on concrete inputs.\<close>

definition sample_registry :: registry where
  "sample_registry =
     [\<lparr>base_op = ''mnm.op.conv2d'', variant_dev = kCUDA, plevel = 7,
        dialect_op = ''mnm.op.tvm.conv2d''\<rparr>,
      \<lparr>base_op = ''mnm.op.conv2d'', variant_dev = kCUDA, plevel = 10,
        dialect_op = ''mnm.op.cudnn.conv2d''\<rparr>,
      \<lparr>base_op = ''mnm.op.conv2d'', variant_dev = kCPU, plevel = 10,
        dialect_op = ''mnm.op.tvm.conv2d''\<rparr>]"

definition fused_kernel :: expr where
  "fused_kernel =
     FunctionNode [''p''] (CallNode (OpNode ''mnm.op.conv2d'') [VarNode ''p''])
       [(''Primitive'', 1)]"

definition sample_function :: expr where
  "sample_function =
     FunctionNode [''x'']
       (LetNode ''a'' (CallNode (OpNode ''mnm.op.conv2d'') [VarNode ''x''])
          (CallNode fused_kernel [VarNode ''a'']))
       []"

section \<open>Tensor broadcasting\<close>

lemma broadcast_loop_done: "broadcast_loop n n s1 s2 oshape = Inr oshape"
  by (subst broadcast_loop.simps) simp

lemma broadcast_loop_step:
  "i < n \<Longrightarrow> broadcast_loop i n s1 s2 oshape =
     (if broadcastable (aligned_dim s1 i) (aligned_dim s2 i)
      then broadcast_loop (i + 1) n s1 s2
             (oshape[n - 1 - i := broadcast_dim (aligned_dim s1 i) (aligned_dim s2 i)])
      else Inl CannotBroadcast)"
  by (subst broadcast_loop.simps)
     (simp add: broadcastable_def broadcast_dim_def aligned_dim_def Let_def)

lemma loop_result_step:
  assumes "i < n" "length oshape = n"
  shows "loop_result (i + 1) n s1 s2
           (oshape[n - 1 - i := broadcast_dim (aligned_dim s1 i) (aligned_dim s2 i)])
         = loop_result i n s1 s2 oshape"
  unfolding loop_result_def
proof (rule map_cong [OF refl])
  fix k assume "k \<in> set [0..<n]"
  then have kn: "k < n" by simp
  let ?os = "oshape[n - 1 - i := broadcast_dim (aligned_dim s1 i) (aligned_dim s2 i)]"
  consider "k < n - (i + 1)" | "k = n - 1 - i" | "n - i \<le> k" using assms(1) by linarith
  then show "(if k < n - (i + 1)
              then broadcast_dim (aligned_dim s1 (n - 1 - k)) (aligned_dim s2 (n - 1 - k))
              else ?os ! k)
           = (if k < n - i
              then broadcast_dim (aligned_dim s1 (n - 1 - k)) (aligned_dim s2 (n - 1 - k))
              else oshape ! k)"
  proof cases
    case 1
    then have "k < n - i" by linarith
    with 1 show ?thesis by (simp only: if_True)
  next
    case 2
    have a: "n - 1 - (n - 1 - i) = i" "n - 1 - i < n - i" "\<not> n - 1 - i < n - (i + 1)" "n - 1 - i < length oshape"
      using assms by simp_all
    show ?thesis unfolding 2 a(1) using a(2,3,4) by (simp only: if_True if_False nth_list_update_eq)
  next
    case 3
    then have "k \<noteq> n - 1 - i" "\<not> k < n - i" "\<not> k < n - (i + 1)" using assms(1) by linarith+
    then show ?thesis by (simp only: if_False nth_list_update_neq not_False_eq_True)
  qed
qed

lemma broadcast_loop_char:
  "i \<le> n \<Longrightarrow> length oshape = n \<Longrightarrow>
   broadcast_loop i n s1 s2 oshape =
     (if \<forall>j. i \<le> j \<and> j < n \<longrightarrow> broadcastable (aligned_dim s1 j) (aligned_dim s2 j)
      then Inr (loop_result i n s1 s2 oshape)
      else Inl CannotBroadcast)"
proof (induction "n - i" arbitrary: i oshape)
  case 0
  then have "i = n" by simp
  have "map ((!) oshape) [0..<length oshape] = oshape" by (rule map_nth)
  with \<open>i = n\<close> 0 show ?case
    by (simp add: broadcast_loop_done loop_result_def)
next
  case (Suc m)
  then have lt: "i < n" by simp
  let ?d = "broadcast_dim (aligned_dim s1 i) (aligned_dim s2 i)"
  show ?case
  proof (cases "broadcastable (aligned_dim s1 i) (aligned_dim s2 i)")
    case False
    then have "\<not> (\<forall>j. i \<le> j \<and> j < n \<longrightarrow> broadcastable (aligned_dim s1 j) (aligned_dim s2 j))"
      using lt by auto
    with False lt show ?thesis by (simp add: broadcast_loop_step)
  next
    case True
    have q: "(\<forall>j. i + 1 \<le> j \<and> j < n \<longrightarrow> broadcastable (aligned_dim s1 j) (aligned_dim s2 j))
           = (\<forall>j. i \<le> j \<and> j < n \<longrightarrow> broadcastable (aligned_dim s1 j) (aligned_dim s2 j))"
    proof
      assume a: "\<forall>j. i + 1 \<le> j \<and> j < n \<longrightarrow> broadcastable (aligned_dim s1 j) (aligned_dim s2 j)"
      show "\<forall>j. i \<le> j \<and> j < n \<longrightarrow> broadcastable (aligned_dim s1 j) (aligned_dim s2 j)"
      proof (intro allI impI)
        fix j assume "i \<le> j \<and> j < n"
        then have "j = i \<or> (i + 1 \<le> j \<and> j < n)" by auto
        with a True show "broadcastable (aligned_dim s1 j) (aligned_dim s2 j)" by blast
      qed
    qed simp
    have "broadcast_loop i n s1 s2 oshape = broadcast_loop (i + 1) n s1 s2 (oshape[n - 1 - i := ?d])"
      using lt True by (simp add: broadcast_loop_step)
    also have "\<dots> = (if \<forall>j. i + 1 \<le> j \<and> j < n \<longrightarrow> broadcastable (aligned_dim s1 j) (aligned_dim s2 j)
      then Inr (loop_result (i + 1) n s1 s2 (oshape[n - 1 - i := ?d]))
      else Inl CannotBroadcast)"
      using Suc.hyps(2) lt Suc.prems(2) by (intro Suc.hyps(1)) simp_all
    also have "\<dots> = (if \<forall>j. i \<le> j \<and> j < n \<longrightarrow> broadcastable (aligned_dim s1 j) (aligned_dim s2 j)
      then Inr (loop_result i n s1 s2 oshape)
      else Inl CannotBroadcast)"
      unfolding q loop_result_step [OF lt Suc.prems(2)] ..
    finally show ?thesis .
  qed
qed

lemma all_broadcastable_iff:
  "all_broadcastable s1 s2 \<longleftrightarrow>
     (\<forall>j. j < max (length s1) (length s2) \<longrightarrow> broadcastable (aligned_dim s1 j) (aligned_dim s2 j))"
  by (auto simp: all_broadcastable_def list_all_iff)

lemma MakeBinaryTensor_char:
  "MakeBinaryTensor x1 x2 =
     (if all_broadcastable (shape x1) (shape x2)
      then Inr \<lparr>ctx = ctx x1, dtype = dtype x1, shape = broadcast_shape (shape x1) (shape x2)\<rparr>
      else Inl CannotBroadcast)"
proof -
  let ?n = "max (length (shape x1)) (length (shape x2))"
  have "broadcast_loop 0 ?n (shape x1) (shape x2) (replicate ?n 0) =
     (if all_broadcastable (shape x1) (shape x2)
      then Inr (loop_result 0 ?n (shape x1) (shape x2) (replicate ?n 0))
      else Inl CannotBroadcast)"
    by (subst broadcast_loop_char) (simp_all add: all_broadcastable_iff)
  moreover have "loop_result 0 ?n (shape x1) (shape x2) (replicate ?n 0)
               = broadcast_shape (shape x1) (shape x2)"
    by (simp add: loop_result_def broadcast_shape_def Let_def)
  ultimately show ?thesis
    by (simp add: MakeBinaryTensor_def ndim_def Assemble_def Let_def)
qed

lemma length_broadcast_shape:
  "length (broadcast_shape s1 s2) = max (length s1) (length s2)"
  by (simp add: broadcast_shape_def Let_def)

lemma nth_broadcast_shape:
  "i < max (length s1) (length s2) \<Longrightarrow>
   broadcast_shape s1 s2 ! (max (length s1) (length s2) - 1 - i)
     = broadcast_dim (aligned_dim s1 i) (aligned_dim s2 i)"
  by (simp add: broadcast_shape_def Let_def)

lemma scalar_or_tensor_rule_tensors:
  "args call = BinaryUfuncArgs (TensorValue t1) (TensorValue t2) None None \<Longrightarrow>
   scalar_or_tensor_rule fl tok call =
     (if all_broadcastable (shape t1) (shape t2)
      then Inr (call\<lparr>out := Some (TensorValue \<lparr>ctx = ctx t1, dtype = dtype t1,
                         shape = broadcast_shape (shape t1) (shape t2)\<rparr>),
                    call_ctx := ctx t1\<rparr>)
      else Inl (CannotBroadcast, call))"
  by (simp add: scalar_or_tensor_rule_def MNM_BINARY_SCALAR_def MNM_SWITCH_SCALAR_def
      MNM_BINARY_TENSOR_def and_then_def not_implemented_def MakeBinaryTensor_char)

text \<open>
  C1. For two tensor operands of add, subtract or multiply with neither \<open>out\<close> nor
  \<open>where\<close> supplied, the rule fails with "Cannot broadcast" when some aligned pair of
  sizes is neither equal nor has a side equal to 1, and otherwise sets \<open>out\<close> to a
  tensor with the device and dtype of the first operand whose shape has the larger of
  the two ranks and, at each position counted from the trailing dimension (missing
  dimensions read as 1), the size \<open>d2\<close> if \<open>d1 = 1\<close>, \<open>d1\<close> if \<open>d2 = 1\<close>, and
  \<open>d1\<close> if \<open>d1 = d2\<close>.
\<close>

theorem binary_tensor_broadcast:
  assumes "op \<in> {Add, Subtract, Multiply}"
    and "args call = BinaryUfuncArgs (TensorValue t1) (TensorValue t2) None None"
  shows "declared fl op call =
     (if all_broadcastable (shape t1) (shape t2)
      then Inr (call\<lparr>out := Some (TensorValue \<lparr>ctx = ctx t1, dtype = dtype t1,
                         shape = broadcast_shape (shape t1) (shape t2)\<rparr>),
                    call_ctx := ctx t1\<rparr>)
      else Inl (CannotBroadcast, call))
     \<and> length (broadcast_shape (shape t1) (shape t2)) = max (ndim t1) (ndim t2)
     \<and> (\<forall>i < max (ndim t1) (ndim t2).
          broadcast_shape (shape t1) (shape t2) ! (max (ndim t1) (ndim t2) - 1 - i) =
            (let d1 = aligned_dim (shape t1) i; d2 = aligned_dim (shape t2) i
             in if d1 = 1 then d2 else if d2 = 1 then d1 else d1))"
proof -
  have "declared fl op call = scalar_or_tensor_rule fl
          (case op of Add \<Rightarrow> Plus | Subtract \<Rightarrow> Minus | _ \<Rightarrow> Times) call"
    using assms(1) by (auto simp: mnm_op_add_def mnm_op_subtract_def mnm_op_multiply_def)
  then have a: "declared fl op call =
     (if all_broadcastable (shape t1) (shape t2)
      then Inr (call\<lparr>out := Some (TensorValue \<lparr>ctx = ctx t1, dtype = dtype t1,
                         shape = broadcast_shape (shape t1) (shape t2)\<rparr>),
                    call_ctx := ctx t1\<rparr>)
      else Inl (CannotBroadcast, call))"
    using assms(2) by (simp only: scalar_or_tensor_rule_tensors)
  have b: "length (broadcast_shape (shape t1) (shape t2)) = max (ndim t1) (ndim t2)"
    by (simp add: length_broadcast_shape ndim_def)
  have c: "\<forall>i < max (ndim t1) (ndim t2).
          broadcast_shape (shape t1) (shape t2) ! (max (ndim t1) (ndim t2) - 1 - i) =
            (let d1 = aligned_dim (shape t1) i; d2 = aligned_dim (shape t2) i
             in if d1 = 1 then d2 else if d2 = 1 then d1 else d1)"
    unfolding ndim_def Let_def
    by (intro allI impI, subst nth_broadcast_shape) (simp_all add: broadcast_dim_def)
  from a b c show ?thesis by (intro conjI)
qed

theorem binary_tensor_broadcast_witness:
  "Add \<in> {Add, Subtract, Multiply} \<and>
   mnm_op_add exact_float
     (call_of ''mnm.op.add'' (BinaryUfuncArgs (TensorValue (tensor_of [3, 1, 5]))
        (TensorValue (tensor_of [4, 5])) None None))
   = Inr \<lparr>callee = Some ''mnm.op.add'',
          args = BinaryUfuncArgs (TensorValue (tensor_of [3, 1, 5])) (TensorValue (tensor_of [4, 5])) None None,
          out = Some (TensorValue (tensor_of [3, 4, 5])), call_ctx = cpu0\<rparr>"
  using binary_tensor_broadcast [of Add
      "call_of ''mnm.op.add'' (BinaryUfuncArgs (TensorValue (tensor_of [3, 1, 5]))
        (TensorValue (tensor_of [4, 5])) None None)" "tensor_of [3, 1, 5]" "tensor_of [4, 5]" exact_float]
  by (simp add: call_of_def tensor_of_def all_broadcastable_def broadcastable_def aligned_dim_def
      broadcast_shape_def broadcast_dim_def)

text \<open>
  The sizes 1 and 0 can be broadcast, and the output size is 0, not the larger of the
  two: the computed shape is not the shape of position-wise maxima.
\<close>

theorem broadcast_max_counterexample:
  "all_broadcastable [1] [0] \<and>
   MakeBinaryTensor (tensor_of [1]) (tensor_of [0]) = Inr (tensor_of [0]) \<and>
   max_shape [1] [0] = [1] \<and>
   MakeBinaryTensor (tensor_of [1]) (tensor_of [0]) \<noteq> Inr (tensor_of (max_shape [1] [0]))"
  by (simp add: MakeBinaryTensor_char tensor_of_def all_broadcastable_def broadcastable_def
      aligned_dim_def broadcast_shape_def broadcast_dim_def max_shape_def max_dim_def)

lemma broadcast_dim_max:
  assumes "broadcastable d1 d2" "0 < sint d1" "0 < sint d2"
  shows "broadcast_dim d1 d2 = max_dim d1 d2"
proof -
  have one: "sint (1 :: int64) = 1" by simp
  consider "d1 = 1" | "d1 \<noteq> 1" "d2 = 1" | "d1 \<noteq> 1" "d2 \<noteq> 1" "d1 = d2"
    using assms(1) by (auto simp: broadcastable_def)
  then show ?thesis
  proof cases
    case 1
    show ?thesis
    proof (cases "d2 = 1")
      case True with 1 show ?thesis by (simp add: broadcast_dim_def max_dim_def)
    next
      case False
      then have "sint d2 \<noteq> 1" using one by (metis signed_word_eqI)
      with assms(3) have "1 < sint d2" by simp
      with 1 show ?thesis by (simp add: broadcast_dim_def max_dim_def)
    qed
  next
    case 2
    then have "sint d1 \<noteq> 1" using one by (metis signed_word_eqI)
    with assms(2) have "\<not> sint d1 < 1" by simp
    with 2 show ?thesis by (simp add: broadcast_dim_def max_dim_def)
  next
    case 3
    then show ?thesis by (simp add: broadcast_dim_def max_dim_def)
  qed
qed

text \<open>
  C2, amended. When every aligned pair of sizes is equal or has a side equal to 1, the
  output has the larger rank and at each position the size of the side that is not 1;
  this is the maximum of the two aligned sizes whenever both are at least 1 (a size 1
  against a size 0 gives 0). Whenever some aligned pair has unequal sizes both different
  from 1, the computation fails with "Cannot broadcast".
\<close>

theorem broadcast_max_positive:
  "(all_broadcastable (shape x1) (shape x2) \<longrightarrow>
      (\<exists>tv. MakeBinaryTensor x1 x2 = Inr tv \<and>
            length (shape tv) = max (ndim x1) (ndim x2) \<and>
            (\<forall>i < max (ndim x1) (ndim x2).
               shape tv ! (max (ndim x1) (ndim x2) - 1 - i) =
                 (if aligned_dim (shape x1) i = 1 then aligned_dim (shape x2) i
                  else aligned_dim (shape x1) i) \<and>
               (0 < sint (aligned_dim (shape x1) i) \<and> 0 < sint (aligned_dim (shape x2) i) \<longrightarrow>
                  shape tv ! (max (ndim x1) (ndim x2) - 1 - i) =
                    max_dim (aligned_dim (shape x1) i) (aligned_dim (shape x2) i)))))
   \<and> ((\<exists>i < max (ndim x1) (ndim x2).
          aligned_dim (shape x1) i \<noteq> aligned_dim (shape x2) i \<and>
          aligned_dim (shape x1) i \<noteq> 1 \<and> aligned_dim (shape x2) i \<noteq> 1) \<longrightarrow>
        MakeBinaryTensor x1 x2 = Inl CannotBroadcast)"
proof (intro conjI impI)
  assume ok: "all_broadcastable (shape x1) (shape x2)"
  let ?n = "max (ndim x1) (ndim x2)"
  let ?tv = "\<lparr>ctx = ctx x1, dtype = dtype x1, shape = broadcast_shape (shape x1) (shape x2)\<rparr>"
  have r: "MakeBinaryTensor x1 x2 = Inr ?tv" using ok by (simp add: MakeBinaryTensor_char)
  have l: "length (shape ?tv) = ?n" by (simp add: length_broadcast_shape ndim_def)
  have p: "\<forall>i < ?n.
               shape ?tv ! (?n - 1 - i) =
                 (if aligned_dim (shape x1) i = 1 then aligned_dim (shape x2) i
                  else aligned_dim (shape x1) i) \<and>
               (0 < sint (aligned_dim (shape x1) i) \<and> 0 < sint (aligned_dim (shape x2) i) \<longrightarrow>
                  shape ?tv ! (?n - 1 - i) =
                    max_dim (aligned_dim (shape x1) i) (aligned_dim (shape x2) i))"
  proof (intro allI impI)
    fix i assume i: "i < ?n"
    then have bc: "broadcastable (aligned_dim (shape x1) i) (aligned_dim (shape x2) i)"
      using ok by (simp add: all_broadcastable_iff ndim_def)
    have nth: "shape ?tv ! (?n - 1 - i) = broadcast_dim (aligned_dim (shape x1) i) (aligned_dim (shape x2) i)"
      using i nth_broadcast_shape [of i "shape x1" "shape x2"] by (simp add: ndim_def)
    show "shape ?tv ! (?n - 1 - i) =
                 (if aligned_dim (shape x1) i = 1 then aligned_dim (shape x2) i
                  else aligned_dim (shape x1) i) \<and>
               (0 < sint (aligned_dim (shape x1) i) \<and> 0 < sint (aligned_dim (shape x2) i) \<longrightarrow>
                  shape ?tv ! (?n - 1 - i) =
                    max_dim (aligned_dim (shape x1) i) (aligned_dim (shape x2) i))"
      unfolding nth using bc by (auto simp: broadcast_dim_max) (simp_all add: broadcast_dim_def)
  qed
  from r l p show "\<exists>tv. MakeBinaryTensor x1 x2 = Inr tv \<and>
            length (shape tv) = ?n \<and>
            (\<forall>i < ?n.
               shape tv ! (?n - 1 - i) =
                 (if aligned_dim (shape x1) i = 1 then aligned_dim (shape x2) i
                  else aligned_dim (shape x1) i) \<and>
               (0 < sint (aligned_dim (shape x1) i) \<and> 0 < sint (aligned_dim (shape x2) i) \<longrightarrow>
                  shape tv ! (?n - 1 - i) =
                    max_dim (aligned_dim (shape x1) i) (aligned_dim (shape x2) i)))"
    by blast
next
  assume "\<exists>i < max (ndim x1) (ndim x2).
          aligned_dim (shape x1) i \<noteq> aligned_dim (shape x2) i \<and>
          aligned_dim (shape x1) i \<noteq> 1 \<and> aligned_dim (shape x2) i \<noteq> 1"
  then have "\<not> all_broadcastable (shape x1) (shape x2)"
    by (auto simp: all_broadcastable_iff ndim_def broadcastable_def)
  then show "MakeBinaryTensor x1 x2 = Inl CannotBroadcast"
    by (simp add: MakeBinaryTensor_char)
qed

theorem broadcast_max_positive_witness:
  "all_broadcastable [3, 1, 5] [4, 5] \<and>
   MakeBinaryTensor (tensor_of [3, 1, 5]) (tensor_of [4, 5]) = Inr (tensor_of [3, 4, 5]) \<and>
   max_shape [3, 1, 5] [4, 5] = [3, 4, 5] \<and>
   MakeBinaryTensor (tensor_of [2, 3]) (tensor_of [4, 3]) = Inl CannotBroadcast"
proof -
  have ok: "all_broadcastable (shape (tensor_of [3, 1, 5])) (shape (tensor_of [4, 5]))"
    by (simp add: tensor_of_def all_broadcastable_def broadcastable_def aligned_dim_def)
  have bad: "\<exists>i < max (ndim (tensor_of [2, 3])) (ndim (tensor_of [4, 3])).
          aligned_dim (shape (tensor_of [2, 3])) i \<noteq> aligned_dim (shape (tensor_of [4, 3])) i \<and>
          aligned_dim (shape (tensor_of [2, 3])) i \<noteq> 1 \<and> aligned_dim (shape (tensor_of [4, 3])) i \<noteq> 1"
    by (rule exI [of _ 1]) (simp add: tensor_of_def ndim_def aligned_dim_def)
  from broadcast_max_positive [of "tensor_of [3, 1, 5]" "tensor_of [4, 5]"] ok
  obtain tv where tv: "MakeBinaryTensor (tensor_of [3, 1, 5]) (tensor_of [4, 5]) = Inr tv" by blast
  have "MakeBinaryTensor (tensor_of [3, 1, 5]) (tensor_of [4, 5]) = Inr (tensor_of [3, 4, 5])"
    by (simp add: MakeBinaryTensor_char tensor_of_def all_broadcastable_def broadcastable_def
      aligned_dim_def broadcast_shape_def broadcast_dim_def)
  moreover have "max_shape [3, 1, 5] [4, 5] = [3, 4, 5]"
    by (simp add: max_shape_def max_dim_def aligned_dim_def)
  moreover have "MakeBinaryTensor (tensor_of [2, 3]) (tensor_of [4, 3]) = Inl CannotBroadcast"
    using broadcast_max_positive [of "tensor_of [2, 3]" "tensor_of [4, 3]"] bad by blast
  ultimately show ?thesis using ok by (simp add: tensor_of_def)
qed

section \<open>The gradient-shape check\<close>

lemma add_dx_loop_char:
  "add_dx_loop i offset xs dys \<longleftrightarrow>
     (\<forall>j. i \<le> j \<and> j < length xs \<longrightarrow> xs ! j = 1 \<or> xs ! j = dys ! (j + offset))"
proof (induction "length xs - i" arbitrary: i)
  case 0
  then show ?case by (subst add_dx_loop.simps) auto
next
  case (Suc m)
  then have lt: "i < length xs" and m: "m = length xs - (i + 1)" by simp_all
  have split: "\<And>P. (\<forall>j. i \<le> j \<and> j < length xs \<longrightarrow> P j) \<longleftrightarrow>
                   (P i \<and> (\<forall>j. i + 1 \<le> j \<and> j < length xs \<longrightarrow> P j))"
  proof -
    fix P :: "nat \<Rightarrow> bool"
    have "\<And>j. i \<le> j \<longleftrightarrow> j = i \<or> i + 1 \<le> j" by auto
    with lt show "(\<forall>j. i \<le> j \<and> j < length xs \<longrightarrow> P j) \<longleftrightarrow>
                   (P i \<and> (\<forall>j. i + 1 \<le> j \<and> j < length xs \<longrightarrow> P j))" by auto
  qed
  have ih: "add_dx_loop (i + 1) offset xs dys \<longleftrightarrow>
     (\<forall>j. i + 1 \<le> j \<and> j < length xs \<longrightarrow> xs ! j = 1 \<or> xs ! j = dys ! (j + offset))"
    by (rule Suc.hyps(1) [OF m])
  show ?case
    by (subst add_dx_loop.simps, subst split, subst ih) (use lt in auto)
qed

text \<open>
  C6. For the parameter tensor \<open>x\<close> and the gradient tensor \<open>dy\<close>, \<open>mnm.op.add_dx\<close>
  succeeds exactly when the rank of \<open>x\<close> is at most the rank of \<open>dy\<close> and every
  dimension of \<open>x\<close> is 1 or equals the dimension of \<open>dy\<close> aligned with it by the rank
  difference; on success \<open>out\<close> is a tensor with the shape, dtype and device of \<open>x\<close>
  (and the call's device is that of \<open>x\<close>); otherwise a \<open>CHECK\<close> fails and the call
  record is left as it was.
\<close>

theorem add_dx_shape_check:
  assumes "args call = BinaryDxArgs x dy"
  shows "mnm_op_add_dx call =
     (if ndim x \<le> ndim dy \<and>
         (\<forall>i < ndim x. shape x ! i = 1 \<or> shape x ! i = shape dy ! (i + (ndim dy - ndim x)))
      then Inr (call\<lparr>call_ctx := ctx x,
                    out := Some (TensorValue \<lparr>ctx = ctx x, dtype = dtype x, shape = shape x\<rparr>)\<rparr>)
      else Inl (CheckFailed, call))"
  using assms
  by (simp add: mnm_op_add_dx_def add_dx_loop_char Assemble_def ndim_def)

theorem add_dx_shape_check_witness:
  "mnm_op_add_dx (call_of ''mnm.op.add_dx'' (BinaryDxArgs (tensor_of [4, 1]) (tensor_of [2, 4, 5])) :: real CallValues)
     = Inr \<lparr>callee = Some ''mnm.op.add_dx'',
            args = BinaryDxArgs (tensor_of [4, 1]) (tensor_of [2, 4, 5]),
            out = Some (TensorValue (tensor_of [4, 1])), call_ctx = cpu0\<rparr>
   \<and> mnm_op_add_dx (call_of ''mnm.op.add_dx'' (BinaryDxArgs (tensor_of [4, 5]) (tensor_of [2, 4, 1])) :: real CallValues)
     = Inl (CheckFailed, call_of ''mnm.op.add_dx'' (BinaryDxArgs (tensor_of [4, 5]) (tensor_of [2, 4, 1])))
   \<and> mnm_op_add_dx (call_of ''mnm.op.add_dx'' (BinaryDxArgs (tensor_of [2, 4, 5]) (tensor_of [4, 5])) :: real CallValues)
     = Inl (CheckFailed, call_of ''mnm.op.add_dx'' (BinaryDxArgs (tensor_of [2, 4, 5]) (tensor_of [4, 5])))"
proof -
  have lt2: "\<And>P. (\<forall>i<Suc (Suc 0). P i) \<longleftrightarrow> P 0 \<and> P (Suc 0)"
    by (auto simp: less_Suc_eq)
  have a: "args (call_of ''mnm.op.add_dx'' (BinaryDxArgs t1 t2) :: real CallValues) = BinaryDxArgs t1 t2" for t1 t2
    by (simp add: call_of_def)
  show ?thesis
    using add_dx_shape_check [OF a [of "tensor_of [4, 1]" "tensor_of [2, 4, 5]"]]
      add_dx_shape_check [OF a [of "tensor_of [4, 5]" "tensor_of [2, 4, 1]"]]
      add_dx_shape_check [OF a [of "tensor_of [2, 4, 5]" "tensor_of [4, 5]"]]
    by (simp add: call_of_def tensor_of_def ndim_def lt2)
qed

section \<open>Scalar operands\<close>

lemma scalar_rule_non_scalar:
  "args call = BinaryUfuncArgs x1 x2 out_arg where_arg \<Longrightarrow>
   \<not> is_scalar x1 \<or> \<not> is_scalar x2 \<or> out_arg \<noteq> None \<or> where_arg \<noteq> None \<Longrightarrow>
   scalar_rule fl tok call = Inl (NotImplementedError, call)"
  by (cases x1; cases x2)
     (auto simp: scalar_rule_def MNM_BINARY_SCALAR_def MNM_SWITCH_SCALAR_def not_implemented_def)

lemma divide_non_scalar:
  "args call = BinaryUfuncArgs x1 x2 out_arg where_arg \<Longrightarrow>
   \<not> is_scalar x1 \<or> \<not> is_scalar x2 \<or> out_arg \<noteq> None \<or> where_arg \<noteq> None \<Longrightarrow>
   mnm_op_divide fl call = Inl (NotImplementedError, call)"
  by (cases x1; cases x2)
     (auto simp: mnm_op_divide_def MNM_SWITCH_SCALAR_def not_implemented_def)

lemma mod_non_scalar:
  "args call = BinaryUfuncArgs x1 x2 out_arg where_arg \<Longrightarrow>
   \<not> is_scalar x1 \<or> \<not> is_scalar x2 \<or> out_arg \<noteq> None \<or> where_arg \<noteq> None \<Longrightarrow>
   mnm_op_mod fl call = Inl (NotImplementedError, call)"
  by (cases x1; cases x2)
     (auto simp: mnm_op_mod_def MNM_SWITCH_SCALAR_def not_implemented_def)

text \<open>
  C7. The six comparisons, divide and mod have the scalar path only: whenever one of
  the two operands \<open>x1\<close>, \<open>x2\<close> is not a scalar (a tensor or any other kind of value),
  whatever \<open>out\<close> and \<open>where\<close> are, and also whenever an \<open>out\<close> or a \<open>where\<close> operand
  is supplied, the rule fails with NotImplementedError and leaves the call record as it
  was.
\<close>

theorem scalar_only_rules_reject_tensors:
  assumes "op \<in> {Less, Greater, LessEqual, GreaterEqual, Equal, NotEqual, Divide, Mod}"
    and "args call = BinaryUfuncArgs x1 x2 out_arg where_arg"
    and "\<not> is_scalar x1 \<or> \<not> is_scalar x2 \<or> out_arg \<noteq> None \<or> where_arg \<noteq> None"
  shows "declared fl op call = Inl (NotImplementedError, call)"
  using assms(1) divide_non_scalar [OF assms(2,3)] mod_non_scalar [OF assms(2,3)]
    scalar_rule_non_scalar [OF assms(2,3)]
  by (auto simp: mnm_op_less_def mnm_op_greater_def mnm_op_less_equal_def
      mnm_op_greater_equal_def mnm_op_equal_def mnm_op_not_equal_def)

theorem scalar_only_rules_reject_tensors_witness:
  "Less \<in> {Less, Greater, LessEqual, GreaterEqual, Equal, NotEqual, Divide, Mod} \<and>
   \<not> is_scalar (TensorValue (tensor_of [2, 3]) :: real Value) \<and>
   mnm_op_less exact_float
     (call_of ''mnm.op.less'' (BinaryUfuncArgs (TensorValue (tensor_of [2, 3])) (IntValue 5) None None))
   = Inl (NotImplementedError,
       call_of ''mnm.op.less'' (BinaryUfuncArgs (TensorValue (tensor_of [2, 3])) (IntValue 5) None None))"
  using scalar_only_rules_reject_tensors [of Less
     "call_of ''mnm.op.less'' (BinaryUfuncArgs (TensorValue (tensor_of [2, 3])) (IntValue 5) None None)"
     "TensorValue (tensor_of [2, 3])" "IntValue 5" None None exact_float]
  by (simp add: call_of_def)

lemma data_eq_0_iff: "data_eq_0 fl d \<longleftrightarrow> widened_is_zero fl d"
  by (cases d) (simp_all add: signed_eq_0_iff)

lemma make_int32_binop:
  "ScalarValue_make (int32_binop tok (if a then 1 else 0) (if b then 1 else 0)) =
   ScalarValue_make (int64_binop tok (if a then 1 else 0) (if b then 1 else 0))"
  by (cases tok; cases a; cases b) (simp_all add: int32_binop_def int64_binop_def)

lemma make_cxx_binop:
  "ScalarValue_make (cxx_binop fl tok d1 d2) =
     (case widen fl d1 d2 of
        WInt a b \<Rightarrow> ScalarValue_make (int64_binop tok a b)
      | WFloat a b \<Rightarrow> ScalarValue_make (double_binop fl tok a b))"
  by (cases d1; cases d2) (simp_all add: widen_def make_int32_binop)

lemma make_cxx_divide:
  "map_option ScalarValue_make (cxx_divide fl d1 d2) = host_operator fl Divide (widen fl d1 d2)"
proof (cases d1; cases d2)
  fix a b assume "d1 = DBool a" "d2 = DBool b"
  then show ?thesis
    by (cases a; cases b) (simp_all add: widen_def cxx_quot_def signed_divide_int_def)
qed (simp_all add: widen_def option.map_comp comp_def)

lemma MNM_BINARY_SCALAR_scalars:
  "MNM_BINARY_SCALAR fl tok (scalar_of d1) (scalar_of d2) call =
     Returned (call\<lparr>callee := None, out := Some (ScalarValue_make (cxx_binop fl tok d1 d2))\<rparr>)"
  by (cases d1; cases d2) (simp_all add: MNM_BINARY_SCALAR_def MNM_SWITCH_SCALAR_def)

lemma rule_scalars:
  assumes "args call = BinaryUfuncArgs (scalar_of d1) (scalar_of d2) None None"
  shows "scalar_or_tensor_rule fl tok call =
           Inr (call\<lparr>callee := None, out := Some (ScalarValue_make (cxx_binop fl tok d1 d2))\<rparr>)"
    and "scalar_rule fl tok call =
           Inr (call\<lparr>callee := None, out := Some (ScalarValue_make (cxx_binop fl tok d1 d2))\<rparr>)"
  using assms
  by (simp_all add: scalar_or_tensor_rule_def scalar_rule_def MNM_BINARY_SCALAR_scalars
      and_then_def not_implemented_def)

lemma divide_body:
  "MNM_SWITCH_SCALAR (scalar_of d1) (\<lambda>s1. MNM_SWITCH_SCALAR (scalar_of d2) (\<lambda>s2. body s1 s2))
     = body d1 d2"
  by (cases d1; cases d2) (simp_all add: MNM_SWITCH_SCALAR_def)

lemma divide_scalars:
  assumes "args call = BinaryUfuncArgs (scalar_of d1) (scalar_of d2) None None"
  shows "mnm_op_divide fl call =
     (if widened_is_zero fl d2 then Inl (ZeroDivisionError, call)
      else case host_operator fl Divide (widen fl d1 d2) of
             None \<Rightarrow> Inl (UndefinedBehaviour, call\<lparr>callee := None\<rparr>)
           | Some v \<Rightarrow> Inr (call\<lparr>callee := None, out := Some v\<rparr>))"
  using assms
  by (simp add: mnm_op_divide_def divide_body not_implemented_def data_eq_0_iff Let_def
      make_cxx_divide [symmetric] split: option.splits)

lemma mod_scalars:
  assumes "args call = BinaryUfuncArgs (scalar_of d1) (scalar_of d2) None None"
  shows "mnm_op_mod fl call =
     (if widened_is_zero fl d2 then Inl (ZeroDivisionError, call)
      else case host_operator fl Mod (widen fl d1 d2) of
             None \<Rightarrow> Inl (UndefinedBehaviour, call\<lparr>callee := None\<rparr>)
           | Some v \<Rightarrow> Inr (call\<lparr>callee := None, out := Some v\<rparr>))"
  using assms
  by (simp add: mnm_op_mod_def divide_body not_implemented_def data_eq_0_iff Let_def widen_def
      split: option.splits)

lemma make_host_operator:
  "Some (ScalarValue_make (cxx_binop fl Plus d1 d2)) = host_operator fl Add (widen fl d1 d2)"
  "Some (ScalarValue_make (cxx_binop fl Minus d1 d2)) = host_operator fl Subtract (widen fl d1 d2)"
  "Some (ScalarValue_make (cxx_binop fl Times d1 d2)) = host_operator fl Multiply (widen fl d1 d2)"
  "Some (ScalarValue_make (cxx_binop fl Lt d1 d2)) = host_operator fl Less (widen fl d1 d2)"
  "Some (ScalarValue_make (cxx_binop fl Gt d1 d2)) = host_operator fl Greater (widen fl d1 d2)"
  "Some (ScalarValue_make (cxx_binop fl Le d1 d2)) = host_operator fl LessEqual (widen fl d1 d2)"
  "Some (ScalarValue_make (cxx_binop fl Ge d1 d2)) = host_operator fl GreaterEqual (widen fl d1 d2)"
  "Some (ScalarValue_make (cxx_binop fl EqEq d1 d2)) = host_operator fl Equal (widen fl d1 d2)"
  "Some (ScalarValue_make (cxx_binop fl NotEq d1 d2)) = host_operator fl NotEqual (widen fl d1 d2)"
  by (cases "widen fl d1 d2"; simp add: make_cxx_binop int64_binop_def)+

lemma int64_quotient_defined:
  assumes "\<not> widened_is_zero fl d2" "\<not> least_by_minus_one d1 d2"
    "\<not> (is_FloatValueObj d1 \<or> is_FloatValueObj d2)"
  shows "sint (to_int64 fl d2) \<noteq> 0 \<and>
         \<not> (sint (to_int64 fl d1) = - (2 ^ (LENGTH(64) - 1)) \<and> sint (to_int64 fl d2) = - 1)"
  using assms by (cases d1; cases d2) (auto split: if_splits)

lemma host_operator_defined:
  assumes "\<not> widened_is_zero fl d2" "\<not> least_by_minus_one d1 d2"
  shows "\<exists>v. host_operator fl Divide (widen fl d1 d2) = Some v"
    and "\<exists>v. host_operator fl Mod (widen fl d1 d2) = Some v"
  using int64_quotient_defined [OF assms]
  by (auto simp: widen_def cxx_quot_def cxx_rem_def)


text \<open>
  The least \<open>int64\<close> divided by \<open>-1\<close>: the divisor is not zero, the host's quotient
  is undefined, and the rule of divide ends without a result.
\<close>

theorem scalar_folding_counterexample:
  "\<not> widened_is_zero exact_float (DInt (- 1)) \<and>
   host_operator exact_float Divide (widen exact_float (DInt (- 9223372036854775808)) (DInt (- 1)))
     = None \<and>
   mnm_op_divide exact_float
     (call_of ''mnm.op.divide''
        (BinaryUfuncArgs (IntValue (- 9223372036854775808)) (IntValue (- 1)) None None))
   = Inl (UndefinedBehaviour,
       \<lparr>callee = None,
        args = BinaryUfuncArgs (IntValue (- 9223372036854775808)) (IntValue (- 1)) None None,
        out = None, call_ctx = \<lparr>device_type = kUnknown, device_id = - 1\<rparr>\<rparr>)"
proof -
  have a: "args (call_of ''mnm.op.divide''
        (BinaryUfuncArgs (scalar_of (DInt (- 9223372036854775808))) (scalar_of (DInt (- 1))) None None)
          :: real CallValues)
     = BinaryUfuncArgs (scalar_of (DInt (- 9223372036854775808))) (scalar_of (DInt (- 1))) None None"
    by (simp add: call_of_def)
  have h: "host_operator exact_float Divide
             (widen exact_float (DInt (- 9223372036854775808)) (DInt (- 1))) = None"
    by (simp add: widen_def cxx_quot_def)
  show ?thesis
    using divide_scalars [OF a, of exact_float] h by (simp add: call_of_def)
qed

text \<open>
  C3, amended. For two scalar operands (integer, float or boolean) and each of the
  eleven arithmetic and comparison operators, when neither \<open>out\<close> nor \<open>where\<close> is
  supplied, and for divide and mod when the divisor is not zero and the operands are
  not the integer pair of the least \<open>int64\<close> and \<open>-1\<close>: the host operator has a value
  on the widened payloads, and the rule returns with \<open>callee\<close> set to null and \<open>out\<close>
  set to that scalar.
\<close>

theorem scalar_folding:
  assumes "args call = BinaryUfuncArgs (scalar_of d1) (scalar_of d2) None None"
    and "op \<in> {Divide, Mod} \<longrightarrow> \<not> widened_is_zero fl d2 \<and> \<not> least_by_minus_one d1 d2"
  shows "\<exists>v. host_operator fl op (widen fl d1 d2) = Some v \<and>
             declared fl op call = Inr (call\<lparr>callee := None, out := Some v\<rparr>)"
proof (cases "op \<in> {Divide, Mod}")
  case True
  with assms(2) have nz: "\<not> widened_is_zero fl d2" and no: "\<not> least_by_minus_one d1 d2"
    by blast+
  from True host_operator_defined [OF nz no]
  obtain v where v: "host_operator fl op (widen fl d1 d2) = Some v" by auto
  from True v nz have "declared fl op call = Inr (call\<lparr>callee := None, out := Some v\<rparr>)"
    by (auto simp: divide_scalars [OF assms(1)] mod_scalars [OF assms(1)])
  with v show ?thesis by blast
next
  case False
  then show ?thesis
    using assms(1)
    by (cases op)
       (simp_all add: rule_scalars make_host_operator [symmetric]
         mnm_op_add_def mnm_op_subtract_def mnm_op_multiply_def mnm_op_less_def
         mnm_op_greater_def mnm_op_less_equal_def mnm_op_greater_equal_def mnm_op_equal_def
         mnm_op_not_equal_def)
qed

theorem scalar_folding_witness:
  "mnm_op_add exact_float
     (call_of ''mnm.op.add'' (BinaryUfuncArgs (IntValue 2) (FloatValue (7 / 2)) None None))
   = Inr \<lparr>callee = None,
          args = BinaryUfuncArgs (IntValue 2) (FloatValue (7 / 2)) None None,
          out = Some (FloatValue (11 / 2)),
          call_ctx = \<lparr>device_type = kUnknown, device_id = -1\<rparr>\<rparr> \<and>
   Divide \<in> {Divide, Mod} \<and> \<not> widened_is_zero exact_float (DInt 2) \<and>
   \<not> least_by_minus_one (DInt (- 7) :: real data) (DInt 2) \<and>
   mnm_op_divide exact_float
     (call_of ''mnm.op.divide'' (BinaryUfuncArgs (IntValue (-7)) (IntValue 2) None None))
   = Inr \<lparr>callee = None,
          args = BinaryUfuncArgs (IntValue (-7)) (IntValue 2) None None,
          out = Some (IntValue (-3)),
          call_ctx = \<lparr>device_type = kUnknown, device_id = -1\<rparr>\<rparr> \<and>
   mnm_op_less exact_float
     (call_of ''mnm.op.less'' (BinaryUfuncArgs (IntValue 2) (IntValue 5) None None))
   = Inr \<lparr>callee = None,
          args = BinaryUfuncArgs (IntValue 2) (IntValue 5) None None,
          out = Some (BoolValue True),
          call_ctx = \<lparr>device_type = kUnknown, device_id = -1\<rparr>\<rparr> \<and>
   mnm_op_add exact_float
     (call_of ''mnm.op.add'' (BinaryUfuncArgs (BoolValue True) (BoolValue True) None None))
   = Inr \<lparr>callee = None,
          args = BinaryUfuncArgs (BoolValue True) (BoolValue True) None None,
          out = Some (IntValue 2),
          call_ctx = \<lparr>device_type = kUnknown, device_id = -1\<rparr>\<rparr>"
proof -
  have a: "args (call_of name (BinaryUfuncArgs (scalar_of d1) (scalar_of d2) None None) :: real CallValues)
             = BinaryUfuncArgs (scalar_of d1) (scalar_of d2) None None" for name d1 d2
    by (simp add: call_of_def)
  have m7: "sint (- 7 :: int64) = - 7" "sint (2 :: int64) = 2"
    by simp_all
  have d: "op \<in> {Divide, Mod} \<longrightarrow>
             \<not> widened_is_zero exact_float (DInt 2) \<and> \<not> least_by_minus_one (DInt (- 7) :: real data) (DInt 2)" for op
    by (simp add: m7)
  show ?thesis
    using scalar_folding [OF a [of "''mnm.op.add''" "DInt 2" "DFloat (7 / 2)"], of Add exact_float]
      scalar_folding [OF a [of "''mnm.op.divide''" "DInt (-7)" "DInt 2"] d, of Divide]
      scalar_folding [OF a [of "''mnm.op.less''" "DInt 2" "DInt 5"], of Less exact_float]
      scalar_folding [OF a [of "''mnm.op.add''" "DBool True" "DBool True"], of Add exact_float]
    by (simp add: call_of_def widen_def exact_float_def cxx_quot_def signed_divide_int_def m7)
qed

text \<open>
  With an \<open>out\<close> operand supplied the rule of divide does not look at the divisor: a
  zero divisor then gives NotImplementedError, not a division-by-zero error.
\<close>

theorem zero_divisor_counterexample:
  "widened_is_zero exact_float (DInt 0) \<and>
   mnm_op_divide exact_float
     (call_of ''mnm.op.divide''
        (BinaryUfuncArgs (IntValue 7) (IntValue 0) (Some (TensorValue (tensor_of [2]))) None))
   = Inl (NotImplementedError,
       call_of ''mnm.op.divide''
        (BinaryUfuncArgs (IntValue 7) (IntValue 0) (Some (TensorValue (tensor_of [2]))) None)) \<and>
   mnm_op_divide exact_float
     (call_of ''mnm.op.divide''
        (BinaryUfuncArgs (IntValue 7) (IntValue 0) (Some (TensorValue (tensor_of [2]))) None))
   \<noteq> Inl (ZeroDivisionError,
       call_of ''mnm.op.divide''
        (BinaryUfuncArgs (IntValue 7) (IntValue 0) (Some (TensorValue (tensor_of [2]))) None))"
  by (simp add: mnm_op_divide_def call_of_def not_implemented_def)

text \<open>
  C4, amended. For every scalar dividend and every scalar divisor whose widened payload
  is zero, when neither \<open>out\<close> nor \<open>where\<close> is supplied, the rules of divide and of mod
  both fail with ZeroDivisionError, and the call record (its \<open>out\<close> and \<open>callee\<close>) is
  as it was before the rule ran.
\<close>

theorem zero_divisor_rejected:
  assumes "args call = BinaryUfuncArgs (scalar_of d1) (scalar_of d2) None None"
    and "widened_is_zero fl d2"
  shows "mnm_op_divide fl call = Inl (ZeroDivisionError, call) \<and>
         mnm_op_mod fl call = Inl (ZeroDivisionError, call)"
  using assms by (simp add: divide_scalars mod_scalars)

theorem zero_divisor_rejected_witness:
  "widened_is_zero exact_float (DInt 0) \<and>
   mnm_op_divide exact_float
     (call_of ''mnm.op.divide'' (BinaryUfuncArgs (FloatValue (5 / 2)) (IntValue 0) None None))
   = Inl (ZeroDivisionError,
       call_of ''mnm.op.divide'' (BinaryUfuncArgs (FloatValue (5 / 2)) (IntValue 0) None None)) \<and>
   mnm_op_mod exact_float
     (call_of ''mnm.op.divide'' (BinaryUfuncArgs (FloatValue (5 / 2)) (IntValue 0) None None))
   = Inl (ZeroDivisionError,
       call_of ''mnm.op.divide'' (BinaryUfuncArgs (FloatValue (5 / 2)) (IntValue 0) None None))"
proof -
  have a: "args (call_of ''mnm.op.divide'' (BinaryUfuncArgs (scalar_of (DFloat (5 / 2))) (scalar_of (DInt 0)) None None)
                  :: real CallValues)
             = BinaryUfuncArgs (scalar_of (DFloat (5 / 2))) (scalar_of (DInt 0)) None None"
    by (simp add: call_of_def)
  have z: "widened_is_zero exact_float (DInt 0)" by simp
  from zero_divisor_rejected [OF a z] z show ?thesis by simp
qed

lemma trunc_quot_sdiv: "trunc_quot k l = k sdiv l"
proof -
  have "sgn k * sgn l * (\<bar>k\<bar> div \<bar>l\<bar>) = trunc_quot k l"
    by (cases "k < 0"; cases "l < 0"; cases "k = 0"; cases "l = 0")
       (simp_all add: trunc_quot_def sgn_if)
  then show ?thesis by (simp add: signed_divide_int_def)
qed

lemma trunc_rem_smod: "trunc_rem k l = k smod l"
  by (simp add: trunc_rem_def trunc_quot_sdiv minus_mult_sdiv_eq_smod)

lemma smod_int_bounds:
  "(0 \<le> k \<longrightarrow> 0 \<le> k smod l \<and> k smod l \<le> k) \<and> (k \<le> 0 \<longrightarrow> k \<le> k smod l \<and> k smod l \<le> 0)"
  for k l :: int
proof -
  have "0 \<le> \<bar>k\<bar> mod \<bar>l\<bar>"
    by (cases "l = 0") simp_all
  moreover have "\<bar>k\<bar> mod \<bar>l\<bar> \<le> \<bar>k\<bar>"
    by (simp add: zmod_le_nonneg_dividend)
  ultimately show ?thesis
    by (cases "k < 0"; cases "k = 0") (simp_all add: signed_modulo_int_def sgn_if)
qed

lemma sint_cxx_rem:
  assumes "cxx_rem a b = Some r"
  shows "sint r = trunc_rem (sint a) (sint b)"
proof -
  let ?r = "sint a smod sint b"
  from assms have r: "r = word_of_int ?r"
    by (simp add: cxx_rem_def split: if_splits)
  have "- (2 ^ (LENGTH('a) - 1)) \<le> sint a" "sint a < 2 ^ (LENGTH('a) - 1)"
    by (rule sint_ge, rule sint_lt)
  with smod_int_bounds [of "sint a" "sint b"]
  have "- (2 ^ (LENGTH('a) - 1)) \<le> ?r" "?r < 2 ^ (LENGTH('a) - 1)"
    by linarith+
  then have "signed_take_bit (LENGTH('a) - Suc 0) ?r = ?r"
    by (simp add: signed_take_bit_int_eq_self)
  then show ?thesis
    by (simp add: r trunc_rem_smod signed_of_int)
qed

lemma trunc_rem_sign:
  "l \<noteq> 0 \<Longrightarrow> \<bar>trunc_rem k l\<bar> < \<bar>l\<bar> \<and> (trunc_rem k l < 0 \<longrightarrow> k < 0) \<and> (0 < trunc_rem k l \<longrightarrow> 0 < k)"
proof -
  assume "l \<noteq> 0"
  then have "\<bar>k\<bar> mod \<bar>l\<bar> < \<bar>l\<bar>" "0 \<le> \<bar>k\<bar> mod \<bar>l\<bar>" by simp_all
  then show ?thesis
    unfolding trunc_rem_smod signed_modulo_int_def
    by (cases "k < 0"; cases "k = 0") (simp_all add: sgn_if)
qed

text \<open>
  With an \<open>out\<close> operand supplied the rule of mod computes no remainder: it fails with
  NotImplementedError. And for the least \<open>int64\<close> and \<open>-1\<close>, where the truncating
  remainder would be 0, the host's \<open>%\<close> is undefined and the rule ends without a result.
\<close>

theorem mod_counterexample:
  "\<not> widened_is_zero exact_float (DInt 3) \<and>
   mnm_op_mod exact_float
     (call_of ''mnm.op.mod''
        (BinaryUfuncArgs (IntValue (-7)) (IntValue 3) (Some (TensorValue (tensor_of [2]))) None))
   = Inl (NotImplementedError,
       call_of ''mnm.op.mod''
        (BinaryUfuncArgs (IntValue (-7)) (IntValue 3) (Some (TensorValue (tensor_of [2]))) None)) \<and>
   \<not> widened_is_zero exact_float (DInt (- 1)) \<and>
   trunc_rem (- 9223372036854775808) (- 1) = 0 \<and>
   mnm_op_mod exact_float
     (call_of ''mnm.op.mod''
        (BinaryUfuncArgs (IntValue (- 9223372036854775808)) (IntValue (- 1)) None None))
   = Inl (UndefinedBehaviour,
       \<lparr>callee = None,
        args = BinaryUfuncArgs (IntValue (- 9223372036854775808)) (IntValue (- 1)) None None,
        out = None, call_ctx = \<lparr>device_type = kUnknown, device_id = - 1\<rparr>\<rparr>)"
proof -
  have a: "args (call_of ''mnm.op.mod''
        (BinaryUfuncArgs (scalar_of (DInt (- 9223372036854775808))) (scalar_of (DInt (- 1))) None None)
          :: real CallValues)
     = BinaryUfuncArgs (scalar_of (DInt (- 9223372036854775808))) (scalar_of (DInt (- 1))) None None"
    by (simp add: call_of_def)
  have h: "host_operator exact_float Mod
             (widen exact_float (DInt (- 9223372036854775808)) (DInt (- 1))) = None"
    by (simp add: widen_def cxx_rem_def)
  have o: "mnm_op_mod exact_float
     (call_of ''mnm.op.mod''
        (BinaryUfuncArgs (IntValue (-7)) (IntValue 3) (Some (TensorValue (tensor_of [2]))) None))
   = Inl (NotImplementedError,
       call_of ''mnm.op.mod''
        (BinaryUfuncArgs (IntValue (-7)) (IntValue 3) (Some (TensorValue (tensor_of [2]))) None))"
    by (simp add: mnm_op_mod_def call_of_def not_implemented_def)
  have t: "trunc_rem (- 9223372036854775808) (- 1) = 0"
    by (simp add: trunc_rem_def trunc_quot_def)
  show ?thesis
    using mod_scalars [OF a, of exact_float] h o t by (simp add: call_of_def)
qed

text \<open>
  C5, amended. For two scalar operands with a divisor that is not zero, other than the
  integer pair of the least \<open>int64\<close> and \<open>-1\<close>, when neither \<open>out\<close> nor \<open>where\<close> is
  supplied: if one of the operands is a float, mod returns the float scalar \<open>fmod\<close> of
  the two operands converted to \<open>double\<close>; otherwise (integers or booleans) it returns
  an integer scalar, the remainder of the quotient rounded towards zero, smaller in
  magnitude than the divisor and with the sign of the dividend. In both cases \<open>callee\<close>
  is set to null.
\<close>

theorem mod_truncating:
  assumes "args call = BinaryUfuncArgs (scalar_of d1) (scalar_of d2) None None"
    and "\<not> widened_is_zero fl d2"
    and "\<not> least_by_minus_one d1 d2"
  shows "if is_FloatValueObj d1 \<or> is_FloatValueObj d2
         then mnm_op_mod fl call =
                Inr (call\<lparr>callee := None,
                       out := Some (FloatValue (f_mod fl (to_double fl d1) (to_double fl d2)))\<rparr>)
         else (\<exists>r. mnm_op_mod fl call = Inr (call\<lparr>callee := None, out := Some (IntValue r)\<rparr>) \<and>
                   sint r = trunc_rem (sint (to_int64 fl d1)) (sint (to_int64 fl d2)) \<and>
                   \<bar>sint r\<bar> < \<bar>sint (to_int64 fl d2)\<bar> \<and>
                   (sint r < 0 \<longrightarrow> sint (to_int64 fl d1) < 0) \<and>
                   (0 < sint r \<longrightarrow> 0 < sint (to_int64 fl d1)))"
proof (cases "is_FloatValueObj d1 \<or> is_FloatValueObj d2")
  case True
  with assms show ?thesis by (simp add: mod_scalars widen_def)
next
  case False
  let ?a = "to_int64 fl d1" and ?b = "to_int64 fl d2"
  from int64_quotient_defined [OF assms(2,3) False]
  have nz: "sint ?b \<noteq> 0" and "cxx_rem ?a ?b \<noteq> None"
    by (simp_all add: cxx_rem_def)
  then obtain r where r: "cxx_rem ?a ?b = Some r" by auto
  have "mnm_op_mod fl call = Inr (call\<lparr>callee := None, out := Some (IntValue r)\<rparr>)"
    using assms(1,2) False r by (simp add: mod_scalars widen_def)
  moreover have s: "sint r = trunc_rem (sint ?a) (sint ?b)"
    by (rule sint_cxx_rem [OF r])
  moreover have "\<bar>sint r\<bar> < \<bar>sint ?b\<bar> \<and> (sint r < 0 \<longrightarrow> sint ?a < 0) \<and> (0 < sint r \<longrightarrow> 0 < sint ?a)"
    unfolding s using trunc_rem_sign [OF nz] .
  ultimately show ?thesis using False by auto
qed

theorem mod_truncating_witness:
  "\<not> widened_is_zero exact_float (DInt 3) \<and>
   \<not> least_by_minus_one (DInt (- 7) :: real data) (DInt 3) \<and>
   trunc_rem (- 7) 3 = - 1 \<and>
   mnm_op_mod exact_float
     (call_of ''mnm.op.mod'' (BinaryUfuncArgs (IntValue (-7)) (IntValue 3) None None))
   = Inr \<lparr>callee = None,
          args = BinaryUfuncArgs (IntValue (-7)) (IntValue 3) None None,
          out = Some (IntValue (-1)),
          call_ctx = \<lparr>device_type = kUnknown, device_id = -1\<rparr>\<rparr> \<and>
   mnm_op_mod exact_float
     (call_of ''mnm.op.mod'' (BinaryUfuncArgs (FloatValue (-7)) (IntValue 3) None None))
   = Inr \<lparr>callee = None,
          args = BinaryUfuncArgs (FloatValue (-7)) (IntValue 3) None None,
          out = Some (FloatValue (-1)),
          call_ctx = \<lparr>device_type = kUnknown, device_id = -1\<rparr>\<rparr>"
proof -
  have a: "args (call_of ''mnm.op.mod'' (BinaryUfuncArgs (scalar_of d1) (scalar_of d2) None None) :: real CallValues)
             = BinaryUfuncArgs (scalar_of d1) (scalar_of d2) None None" for d1 d2
    by (simp add: call_of_def)
  have nz: "\<not> widened_is_zero exact_float (DInt 3)" by simp
  have s: "sint (- 7 :: int64) = - 7" "sint (3 :: int64) = 3" by simp_all
  have no: "\<not> least_by_minus_one (DInt (- 7) :: real data) (DInt 3)" by (simp add: s)
  have nof: "\<not> least_by_minus_one (DFloat (- 7) :: real data) (DInt 3)" by simp
  have t: "trunc_rem (- 7) 3 = - 1" by (simp add: trunc_rem_def trunc_quot_def)
  from mod_truncating [OF a [of "DInt (-7)" "DInt 3"] nz no]
  obtain r where r: "mnm_op_mod exact_float
       (call_of ''mnm.op.mod'' (BinaryUfuncArgs (IntValue (-7)) (IntValue 3) None None))
       = Inr (call_of ''mnm.op.mod'' (BinaryUfuncArgs (IntValue (-7)) (IntValue 3) None None)
               \<lparr>callee := None, out := Some (IntValue r)\<rparr>)"
      and "sint r = trunc_rem (sint (- 7 :: int64)) (sint (3 :: int64))"
    by auto
  then have "sint r = sint (- 1 :: int64)" using t s by simp
  then have "r = - 1" by (rule signed_word_eqI)
  with r have i: "mnm_op_mod exact_float
       (call_of ''mnm.op.mod'' (BinaryUfuncArgs (IntValue (-7)) (IntValue 3) None None))
       = Inr \<lparr>callee = None,
          args = BinaryUfuncArgs (IntValue (-7)) (IntValue 3) None None,
          out = Some (IntValue (-1)),
          call_ctx = \<lparr>device_type = kUnknown, device_id = -1\<rparr>\<rparr>"
    by (simp add: call_of_def)
  have f: "mnm_op_mod exact_float
     (call_of ''mnm.op.mod'' (BinaryUfuncArgs (FloatValue (-7)) (IntValue 3) None None))
   = Inr \<lparr>callee = None,
          args = BinaryUfuncArgs (FloatValue (-7)) (IntValue 3) None None,
          out = Some (FloatValue (-1)),
          call_ctx = \<lparr>device_type = kUnknown, device_id = -1\<rparr>\<rparr>"
    using mod_truncating [OF a [of "DFloat (-7)" "DInt 3"] nz nof]
    by (simp add: call_of_def exact_float_def)
  from nz no t i f show ?thesis by simp
qed

section \<open>The dispatch pass\<close>

lemma Mutate_primitive:
  "is_primitive_function e \<Longrightarrow> Mutate is_dialect dispatch dev_type e = e"
  by (cases e) (simp_all add: is_primitive_function_def)

lemma children_Mutate:
  "\<not> is_primitive_function e \<Longrightarrow>
   children (Mutate is_dialect dispatch dev_type e)
     = map (Mutate is_dialect dispatch dev_type) (children e)"
  by (cases e) (simp_all add: is_primitive_function_def split: option.splits)

lemma subexpr_at_Mutate_primitive:
  "subexpr_at path e = Some f \<Longrightarrow> is_primitive_function f \<Longrightarrow>
   subexpr_at path (Mutate is_dialect dispatch dev_type e) = Some f"
proof (induction path arbitrary: e)
  case Nil
  then show ?case by (simp add: Mutate_primitive)
next
  case (Cons i path)
  show ?case
  proof (cases "is_primitive_function e")
    case True
    with Cons.prems show ?thesis by (simp only: Mutate_primitive)
  next
    case False
    from Cons.prems(1) have i: "i < length (children e)"
      and sub: "subexpr_at path (children e ! i) = Some f"
      by (simp_all split: if_splits)
    from Cons.IH [OF sub Cons.prems(2)] i show ?thesis
      by (simp add: children_Mutate [OF False])
  qed
qed

text \<open>
  C8. A sub-function whose \<open>Primitive\<close> attribute is nonzero, at any position inside the
  expression handed to the pass, is found unchanged at the same position of the result:
  the pass does not go into it, and every operator reference inside it stays as it is,
  whatever the device and whatever \<open>IsDialectOp\<close> and \<open>OpDialect::Dispatch\<close> answer.
\<close>

theorem primitive_function_untouched:
  assumes "subexpr_at path e = Some (FunctionNode params body attrs)"
    and "HasNonzeroAttr attrs kPrimitive"
  shows "subexpr_at path (fst (Dispatch is_dialect dispatch dev e))
           = Some (FunctionNode params body attrs)"
proof -
  have "is_primitive_function (FunctionNode params body attrs)"
    using assms(2) by (simp add: is_primitive_function_def)
  with assms(1) show ?thesis
    by (simp add: Dispatch_def subexpr_at_Mutate_primitive)
qed

theorem primitive_function_untouched_witness:
  "subexpr_at [0, 1, 0] sample_function = Some fused_kernel \<and>
   HasNonzeroAttr [(''Primitive'', 1)] kPrimitive \<and>
   subexpr_at [0, 1, 0] (DispatchDialect sample_registry \<lparr>device_type = kCUDA, device_id = 0\<rparr> sample_function)
     = Some fused_kernel \<and>
   subexpr_at [0, 0, 0] (DispatchDialect sample_registry \<lparr>device_type = kCUDA, device_id = 0\<rparr> sample_function)
     = Some (OpNode ''mnm.op.cudnn.conv2d'')"
proof -
  have s: "subexpr_at [0, 1, 0] sample_function
             = Some (FunctionNode [''p''] (CallNode (OpNode ''mnm.op.conv2d'') [VarNode ''p''])
                 [(''Primitive'', 1)])"
    by (simp add: sample_function_def fused_kernel_def)
  have h: "HasNonzeroAttr [(''Primitive'', 1)] kPrimitive"
    by (simp add: HasNonzeroAttr_def kPrimitive_def)
  have d: "subexpr_at [0, 0, 0] (DispatchDialect sample_registry \<lparr>device_type = kCUDA, device_id = 0\<rparr> sample_function)
     = Some (OpNode ''mnm.op.cudnn.conv2d'')"
    by (simp add: DispatchDialect_def Dispatch_def sample_function_def fused_kernel_def
        HasNonzeroAttr_def kPrimitive_def IsDialectOp_def OpDialect_Dispatch_def sample_registry_def)
  from primitive_function_untouched [OF s h, of "IsDialectOp sample_registry"
      "OpDialect_Dispatch sample_registry" "\<lparr>device_type = kCUDA, device_id = 0\<rparr>"] s h d
  show ?thesis by (simp add: DispatchDialect_def fused_kernel_def)
qed

lemma Mutate_idem:
  assumes "\<And>op d. \<not> is_dialect op \<Longrightarrow> dispatch op dev_type = Some d \<Longrightarrow> is_dialect d"
  shows "Mutate is_dialect dispatch dev_type (Mutate is_dialect dispatch dev_type e)
           = Mutate is_dialect dispatch dev_type e"
proof (induction e)
  case (OpNode op)
  show ?case
  proof (cases "is_dialect op")
    case True then show ?thesis by simp
  next
    case False
    show ?thesis
    proof (cases "dispatch op dev_type")
      case None with False show ?thesis by simp
    next
      case (Some d)
      with False assms have "is_dialect d" by blast
      with False Some show ?thesis by simp
    qed
  qed
next
  case (TupleNode es)
  then show ?case by (simp cong: map_cong)
next
  case (CallNode f xs)
  then show ?case by (simp cong: map_cong)
qed simp_all

lemma highest_in: "highest best vs \<in> set (best # vs)"
  by (induction vs arbitrary: best) (auto split: if_splits)

lemma OpDialect_Dispatch_is_dialect:
  assumes "OpDialect_Dispatch reg op dev_type = Some d"
  shows "IsDialectOp reg d"
proof -
  let ?vs = "filter (\<lambda>v. base_op v = op \<and> variant_dev v = dev_type) reg"
  from assms obtain v vs where c: "?vs = v # vs" and d: "d = dialect_op (highest v vs)"
    by (auto simp: OpDialect_Dispatch_def split: list.splits)
  have "highest v vs \<in> set ?vs" unfolding c by (rule highest_in)
  then have "highest v vs \<in> set reg" by simp
  with d show ?thesis by (auto simp: IsDialectOp_def list_ex_iff)
qed

text \<open>
  C9. For any function, device and registry snapshot, running the pass on its own
  result gives that result again; an operator reference that is already a dialect
  operator is returned unchanged.
\<close>

theorem dispatch_idempotent:
  "DispatchDialect reg dev (DispatchDialect reg dev f) = DispatchDialect reg dev f \<and>
   (IsDialectOp reg op \<longrightarrow> DispatchDialect reg dev (OpNode op) = OpNode op)"
proof -
  have "Mutate (IsDialectOp reg) (OpDialect_Dispatch reg) (device_type dev)
          (Mutate (IsDialectOp reg) (OpDialect_Dispatch reg) (device_type dev) f)
        = Mutate (IsDialectOp reg) (OpDialect_Dispatch reg) (device_type dev) f"
    by (rule Mutate_idem) (rule OpDialect_Dispatch_is_dialect)
  then show ?thesis
    by (simp add: DispatchDialect_def Dispatch_def)
qed

theorem dispatch_idempotent_witness:
  "IsDialectOp sample_registry ''mnm.op.cudnn.conv2d'' \<and>
   DispatchDialect sample_registry \<lparr>device_type = kCUDA, device_id = 0\<rparr> (OpNode ''mnm.op.cudnn.conv2d'')
     = OpNode ''mnm.op.cudnn.conv2d'' \<and>
   DispatchDialect sample_registry \<lparr>device_type = kCUDA, device_id = 0\<rparr> sample_function
     = FunctionNode [''x'']
         (LetNode ''a'' (CallNode (OpNode ''mnm.op.cudnn.conv2d'') [VarNode ''x''])
            (CallNode fused_kernel [VarNode ''a'']))
         [] \<and>
   DispatchDialect sample_registry \<lparr>device_type = kCUDA, device_id = 0\<rparr>
     (DispatchDialect sample_registry \<lparr>device_type = kCUDA, device_id = 0\<rparr> sample_function)
     = FunctionNode [''x'']
         (LetNode ''a'' (CallNode (OpNode ''mnm.op.cudnn.conv2d'') [VarNode ''x''])
            (CallNode fused_kernel [VarNode ''a'']))
         []"
proof -
  have i: "IsDialectOp sample_registry ''mnm.op.cudnn.conv2d''"
    by (simp add: IsDialectOp_def sample_registry_def)
  have d: "DispatchDialect sample_registry \<lparr>device_type = kCUDA, device_id = 0\<rparr> sample_function
     = FunctionNode [''x'']
         (LetNode ''a'' (CallNode (OpNode ''mnm.op.cudnn.conv2d'') [VarNode ''x''])
            (CallNode fused_kernel [VarNode ''a'']))
         []"
    by (simp add: DispatchDialect_def Dispatch_def sample_function_def fused_kernel_def
        HasNonzeroAttr_def kPrimitive_def IsDialectOp_def OpDialect_Dispatch_def sample_registry_def)
  from dispatch_idempotent [of sample_registry "\<lparr>device_type = kCUDA, device_id = 0\<rparr>"
      sample_function "''mnm.op.cudnn.conv2d''"] i d
  show ?thesis by simp
qed

text \<open>
  C10. When the ambient device has the unknown type or a negative index, \<open>Dispatch\<close>
  returns the expression it was given, unchanged, and writes one warning and nothing
  else.
\<close>

theorem unset_device_noop:
  assumes "device_type dev = kUnknown \<or> device_id dev < 0"
  shows "Dispatch is_dialect dispatch dev expr =
           (expr, [WARNING ''Device is not specified, skip DispatchDialect pass.''])"
  using assms by (simp add: Dispatch_def)

theorem unset_device_noop_witness:
  "device_id \<lparr>device_type = kCUDA, device_id = - 1\<rparr> < 0 \<and>
   Dispatch (IsDialectOp sample_registry) (OpDialect_Dispatch sample_registry)
     \<lparr>device_type = kCUDA, device_id = - 1\<rparr> sample_function
   = (sample_function, [WARNING ''Device is not specified, skip DispatchDialect pass.''])"
proof -
  have h: "device_type \<lparr>device_type = kCUDA, device_id = - 1\<rparr> = kUnknown \<or>
      device_id \<lparr>device_type = kCUDA, device_id = - 1\<rparr> < 0" by simp
  from unset_device_noop [OF h] show ?thesis by simp
qed

end
